theory Spec2Isabelle
  imports Main "HOL-Library.Word"
begin

unbundle bit_operations_syntax

section \<open>Codec2 linear buffers over ION: a shallow embedding of C2Buffer.cpp\<close>

text \<open>
  The development follows \<^verbatim>\<open>media/libstagefright/codec2/vndk/C2Buffer.cpp\<close>.
  Every function of that file that the properties below talk about is translated
  into a HOL function of the same name. Objects are records, out-parameters are returned,
  and every call into the ION driver or the operating system is appended to a trace and
  answered by an explicit environment.
\<close>

subsection \<open>Machine types\<close>

text \<open>
  \<^verbatim>\<open>size_t\<close> and object addresses are 64-bit words (LP64), \<^verbatim>\<open>uint32_t\<close> is a 32-bit word;
  their arithmetic wraps as in C. Values of type \<^verbatim>\<open>int\<close> (descriptors, return codes,
  errno) are only compared and negated by the code, and are integers here.
\<close>

type_synonym size_t = "64 word"
type_synonym addr = "64 word"
type_synonym uint32_t = "32 word"
type_synonym uint64_t = "64 word"

definition nullptr :: addr where
  "nullptr = 0"

definition MAP_FAILED :: addr where
  "MAP_FAILED = - 1"

definition PAGE_SIZE :: size_t where
  "PAGE_SIZE = 4096"

subsection \<open>Error codes\<close>

text \<open>
  Modelled from the spec: the type \<^verbatim>\<open>C2Error\<close> is declared in a header that is not part
  of the sources. The spec gives its values as a flat set: Ok, BadValue, NoMemory,
  NoPermission, TimedOut, Unsupported, Corrupted. The source also stores the raw return
  value of \<^verbatim>\<open>ion_import\<close> in a \<^verbatim>\<open>C2Error\<close> and tests \<^verbatim>\<open>mInit == 0\<close>, so a code is
  integer-like with \<^verbatim>\<open>C2_OK\<close> being 0; a nonzero raw driver value is kept as \<open>C2_RAW\<close>.
\<close>

datatype C2Error =
    C2_OK
  | C2_BAD_VALUE
  | C2_NO_MEMORY
  | C2_NO_PERMISSION
  | C2_TIMED_OUT
  | C2_UNSUPPORTED
  | C2_CORRUPTED
  | C2_RAW int

definition C2Error_of_int :: "int \<Rightarrow> C2Error" where
  "C2Error_of_int r = (if r = 0 then C2_OK else C2_RAW r)"

text \<open>The errno values of the platform (Linux \<^verbatim>\<open>errno.h\<close>).\<close>

definition EPERM :: int where "EPERM = 1"
definition ENOENT :: int where "ENOENT = 2"
definition ENOMEM :: int where "ENOMEM = 12"
definition EACCES :: int where "EACCES = 13"
definition EINVAL :: int where "EINVAL = 22"

subsection \<open>Standard errno mappings (lines 29--56)\<close>

text \<open>
  \<^verbatim>\<open>_c2_errno2error_impl<N>\<close> is declared for every \<open>N\<close> and defined by five explicit
  specialisations only; an instantiation at any other value does not build. The entries
  of a mapping table (the template arguments of \<^verbatim>\<open>c2_map_errno<N...>\<close>) therefore range over
  the specialised values, which is the type \<open>errno_entry\<close>.
\<close>

datatype errno_entry = N_0 | N_EINVAL | N_EACCES | N_EPERM | N_ENOMEM

fun errno_of :: "errno_entry \<Rightarrow> int" where
  "errno_of N_0 = 0"
| "errno_of N_EINVAL = EINVAL"
| "errno_of N_EACCES = EACCES"
| "errno_of N_EPERM = EPERM"
| "errno_of N_ENOMEM = ENOMEM"

fun c2_errno2error_impl :: "errno_entry \<Rightarrow> C2Error" where
  "c2_errno2error_impl N_0 = C2_OK"
| "c2_errno2error_impl N_EINVAL = C2_BAD_VALUE"
| "c2_errno2error_impl N_EACCES = C2_NO_PERMISSION"
| "c2_errno2error_impl N_EPERM = C2_NO_PERMISSION"
| "c2_errno2error_impl N_ENOMEM = C2_NO_MEMORY"

fun c2_map_errno_impl :: "errno_entry list \<Rightarrow> int \<Rightarrow> C2Error" where
  "c2_map_errno_impl [] result = (if result = 0 then C2_OK else C2_CORRUPTED)"
| "c2_map_errno_impl (E # N) result =
     (if result = errno_of E then c2_errno2error_impl E else c2_map_errno_impl N result)"

definition c2_map_errno :: "errno_entry list \<Rightarrow> int \<Rightarrow> C2Error" where
  "c2_map_errno N result = c2_map_errno_impl N result"

subsection \<open>ION handle (lines 105--152)\<close>

text \<open>
  \<^verbatim>\<open>C2Handle\<close> is the platform's native handle: a header of three \<^verbatim>\<open>int\<close>s followed by the
  payload. \<^verbatim>\<open>C2HandleIon\<close> extends it by two descriptor slots and one integer slot. A
  \<^verbatim>\<open>const C2Handle *\<close> is an optional handle (\<open>None\<close> is the null pointer); the code reads
  the pointee through the \<^verbatim>\<open>C2HandleIon\<close> layout after a \<^verbatim>\<open>static_cast\<close>, and so does the model.
\<close>

record C2Handle =
  version :: int
  numFds :: int
  numInts :: int

record C2HandleIon = C2Handle +
  mIon :: int
  mBuffer :: int
  mMagic :: int

text \<open>\<^verbatim>\<open>kMagic = 'ion1'\<close>: the four characters 0x69 0x6F 0x6E 0x31.\<close>

definition kMagic :: int where
  "kMagic = 0x696F6E31"

text \<open>\<^verbatim>\<open>sizeof(C2Handle)\<close>, \<^verbatim>\<open>sizeof(mFds)\<close>, \<^verbatim>\<open>sizeof(mInts)\<close> and \<^verbatim>\<open>sizeof(int)\<close>.\<close>

definition sizeof_int :: int where "sizeof_int = 4"
definition sizeof_C2Handle :: int where "sizeof_C2Handle = 3 * sizeof_int"
definition sizeof_mFds :: int where "sizeof_mFds = 2 * sizeof_int"
definition sizeof_mInts :: int where "sizeof_mInts = 1 * sizeof_int"

definition C2HandleIon_numFds :: int where
  "C2HandleIon_numFds = sizeof_mFds div sizeof_int"

definition C2HandleIon_numInts :: int where
  "C2HandleIon_numInts = sizeof_mInts div sizeof_int"

definition C2HandleIon_version :: int where
  "C2HandleIon_version = sizeof_C2Handle + sizeof_mFds + sizeof_mInts"

definition cHeader :: C2Handle where
  "cHeader = \<lparr>version = C2HandleIon_version, numFds = C2HandleIon_numFds,
              numInts = C2HandleIon_numInts\<rparr>"

definition C2HandleIon_ctor :: "int \<Rightarrow> int \<Rightarrow> C2HandleIon" where
  "C2HandleIon_ctor ionFd buffer =
     \<lparr>version = version cHeader, numFds = numFds cHeader, numInts = numInts cHeader,
      mIon = ionFd, mBuffer = buffer, mMagic = kMagic\<rparr>"

definition ionFd :: "C2HandleIon \<Rightarrow> int" where
  "ionFd h = mIon h"

definition buffer :: "C2HandleIon \<Rightarrow> int" where
  "buffer h = mBuffer h"

definition setBuffer :: "C2HandleIon \<Rightarrow> int \<Rightarrow> C2HandleIon" where
  "setBuffer h bufferFd = h\<lparr>mBuffer := bufferFd\<rparr>"

text \<open>
  \<^verbatim>\<open>memcmp(o, &cHeader, sizeof(cHeader))\<close> compares the twelve header bytes, which are the
  three header fields; the result is nonzero exactly when a field differs.
\<close>

definition memcmp_cHeader :: "C2HandleIon \<Rightarrow> bool" where
  "memcmp_cHeader h =
     ((version h, numFds h, numInts h) \<noteq> (version cHeader, numFds cHeader, numInts cHeader))"

definition isValid :: "C2HandleIon option \<Rightarrow> bool" where
  "isValid p =
     (case p of
        None \<Rightarrow> False
      | Some other \<Rightarrow> if memcmp_cHeader other then False else mMagic other = kMagic)"

subsection \<open>The driver and the operating system\<close>

text \<open>
  The calls that leave the program. A trace is the list of the calls made so far, oldest
  first. The environment answers a call from the trace before it and the call itself, so
  that it may be stateful: the same call need not get the same answer twice.
\<close>

datatype syscall =
    ion_open
  | ion_close int
  | ion_alloc int size_t size_t uint32_t uint32_t
  | ion_import int int
  | ion_map int int size_t int int size_t
  | ion_free int int
  | mmap addr size_t int int int size_t
  | munmap addr size_t
  | close int

type_synonym trace = "syscall list"

text \<open>
  \<open>ion_open_ret\<close>: the descriptor returned and the value of \<^verbatim>\<open>errno\<close> afterwards.
  \<open>ion_alloc_ret\<close>, \<open>ion_import_ret\<close>: the return value and the value of the local
  \<^verbatim>\<open>buffer\<close> afterwards. \<open>ion_map_ret\<close>: the return value and what the driver stored
  through the two out-pointers (\<open>None\<close>: left untouched). \<open>mmap_ret\<close>: the address
  returned and \<^verbatim>\<open>errno\<close> afterwards. \<open>munmap_ret\<close>: the return value and \<^verbatim>\<open>errno\<close>
  afterwards.
\<close>

record env =
  ion_open_ret :: "trace \<Rightarrow> int \<times> int"
  ion_alloc_ret :: "trace \<Rightarrow> syscall \<Rightarrow> int \<times> int"
  ion_import_ret :: "trace \<Rightarrow> syscall \<Rightarrow> int \<times> int"
  ion_map_ret :: "trace \<Rightarrow> syscall \<Rightarrow> int \<times> addr option \<times> int option"
  mmap_ret :: "trace \<Rightarrow> syscall \<Rightarrow> addr \<times> int"
  munmap_ret :: "trace \<Rightarrow> syscall \<Rightarrow> int \<times> int"

text \<open>Constants of \<^verbatim>\<open>sys/mman.h\<close> and of the gralloc usage bits.\<close>

definition PROT_NONE :: int where "PROT_NONE = 0"
definition PROT_READ :: int where "PROT_READ = 1"
definition PROT_WRITE :: int where "PROT_WRITE = 2"
definition MAP_SHARED :: int where "MAP_SHARED = 1"
definition MAP_PRIVATE :: int where "MAP_PRIVATE = 2"

definition GRALLOC_USAGE_SW_READ_MASK :: uint64_t where
  "GRALLOC_USAGE_SW_READ_MASK = 0xF"

definition GRALLOC_USAGE_SW_WRITE_MASK :: uint64_t where
  "GRALLOC_USAGE_SW_WRITE_MASK = 0xF0"

record C2MemoryUsage =
  mConsumer :: uint64_t
  mProducer :: uint64_t

text \<open>
  Modelled from the spec: \<^verbatim>\<open>C2MemoryUsage::kSoftwareRead\<close> and \<^verbatim>\<open>kSoftwareWrite\<close> are the
  software-read and software-write usage bits (the gralloc "often" values).
\<close>

definition kSoftwareRead :: uint64_t where
  "kSoftwareRead = 0x3"

definition kSoftwareWrite :: uint64_t where
  "kSoftwareWrite = 0x30"

subsection \<open>ION allocation (lines 156--342)\<close>

record C2AllocationIon_Impl =
  mInit :: C2Error
  mHandle :: C2HandleIon
  mMapFd :: int
  mMapAddr :: addr
  mMapAlignmentBytes :: size_t
  mMapSize :: size_t
  mCapacity :: size_t

text \<open>
  Neither constructor initialises \<^verbatim>\<open>mMapAddr\<close>, \<^verbatim>\<open>mMapAlignmentBytes\<close> and \<^verbatim>\<open>mMapSize\<close>.
  Their indeterminate initial values are an argument of the constructors.
\<close>

record indeterminate =
  i_mMapAddr :: addr
  i_mMapAlignmentBytes :: size_t
  i_mMapSize :: size_t

definition Impl_ctor_alloc ::
  "env \<Rightarrow> trace \<Rightarrow> indeterminate \<Rightarrow> int \<Rightarrow> size_t \<Rightarrow> size_t \<Rightarrow> uint32_t \<Rightarrow> uint32_t
     \<Rightarrow> C2AllocationIon_Impl \<times> trace" where
  "Impl_ctor_alloc os tr u fd capacity align heapMask flags =
     (let this = \<lparr>mInit = C2_OK, mHandle = C2HandleIon_ctor fd (- 1), mMapFd = - 1,
                   mMapAddr = i_mMapAddr u, mMapAlignmentBytes = i_mMapAlignmentBytes u,
                   mMapSize = i_mMapSize u, mCapacity = capacity\<rparr>;
          call = ion_alloc (ionFd (mHandle this)) (mCapacity this) align heapMask flags;
          (ret, buf) = ion_alloc_ret os tr call
      in (if ret = 0 then this\<lparr>mHandle := setBuffer (mHandle this) buf\<rparr>
          else this\<lparr>mInit := c2_map_errno [N_ENOMEM, N_EACCES, N_EINVAL] (- ret)\<rparr>,
          tr @ [call]))"

definition Impl_ctor_import ::
  "env \<Rightarrow> trace \<Rightarrow> indeterminate \<Rightarrow> int \<Rightarrow> size_t \<Rightarrow> int \<Rightarrow> C2AllocationIon_Impl \<times> trace" where
  "Impl_ctor_import os tr u fd capacity shareFd =
     (let handle = C2HandleIon_ctor fd (- 1);
          call = ion_import (ionFd handle) shareFd;
          (ret, buf) = ion_import_ret os tr call;
          this = \<lparr>mInit = C2Error_of_int ret, mHandle = handle, mMapFd = - 1,
                   mMapAddr = i_mMapAddr u, mMapAlignmentBytes = i_mMapAlignmentBytes u,
                   mMapSize = i_mMapSize u, mCapacity = capacity\<rparr>
      in (if ret = 0 then this\<lparr>mHandle := setBuffer (mHandle this) buf\<rparr> else this,
          tr @ [call]))"

text \<open>
  \<^verbatim>\<open>Impl::map\<close>. The result is the error, the address stored through \<^verbatim>\<open>addr\<close>, the
  object afterwards and the trace afterwards. \<^verbatim>\<open>fenceFd\<close> is not used by the code.
\<close>

definition Impl_map ::
  "env \<Rightarrow> trace \<Rightarrow> C2AllocationIon_Impl \<Rightarrow> size_t \<Rightarrow> size_t \<Rightarrow> C2MemoryUsage \<Rightarrow> int option
     \<Rightarrow> C2Error \<times> addr \<times> C2AllocationIon_Impl \<times> trace" where
  "Impl_map os tr this offset sz usage fenceFd =
     (let prot0 = PROT_NONE;
          flags0 = MAP_PRIVATE;
          prot1 = (if mConsumer usage AND GRALLOC_USAGE_SW_READ_MASK \<noteq> 0
                   then prot0 OR PROT_READ else prot0);
          prot = (if mProducer usage AND GRALLOC_USAGE_SW_WRITE_MASK \<noteq> 0
                  then prot1 OR PROT_WRITE else prot1);
          flags = (if mProducer usage AND GRALLOC_USAGE_SW_WRITE_MASK \<noteq> 0
                   then MAP_SHARED else flags0);
          alignmentBytes = offset mod PAGE_SIZE;
          mapOffset = offset - alignmentBytes;
          mapSize = sz + alignmentBytes
      in if mMapFd this = - 1 then
           (let call = ion_map (ionFd (mHandle this)) (buffer (mHandle this)) mapSize prot
                         flags mapOffset;
                (ret, ptr, map_fd) = ion_map_ret os tr call;
                this1 = this\<lparr>mMapAddr := (case ptr of None \<Rightarrow> mMapAddr this | Some a \<Rightarrow> a),
                              mMapFd := (case map_fd of None \<Rightarrow> mMapFd this | Some f \<Rightarrow> f)\<rparr>
            in if ret \<noteq> 0 then
                 (c2_map_errno [N_EINVAL] (- ret), nullptr, this1\<lparr>mMapFd := - 1\<rparr>, tr @ [call])
               else
                 (C2_OK, mMapAddr this1 + alignmentBytes,
                  this1\<lparr>mMapAlignmentBytes := alignmentBytes, mMapSize := mapSize\<rparr>,
                  tr @ [call]))
         else
           (let call = mmap nullptr mapSize prot flags (mMapFd this) mapOffset;
                (p, errno) = mmap_ret os tr call
            in if p = MAP_FAILED then
                 (c2_map_errno [N_EINVAL] errno, nullptr, this\<lparr>mMapAddr := nullptr\<rparr>,
                  tr @ [call])
               else
                 (C2_OK, p + alignmentBytes,
                  this\<lparr>mMapAddr := p, mMapAlignmentBytes := alignmentBytes, mMapSize := mapSize\<rparr>,
                  tr @ [call])))"

text \<open>
  \<^verbatim>\<open>Impl::unmap\<close>. \<^verbatim>\<open>fenceFd\<close> is \<open>None\<close> for a null pointer and the pointee otherwise;
  the result is the error, the pointee of \<^verbatim>\<open>fenceFd\<close> afterwards, the object afterwards
  and the trace afterwards.
\<close>

definition Impl_unmap ::
  "env \<Rightarrow> trace \<Rightarrow> C2AllocationIon_Impl \<Rightarrow> addr \<Rightarrow> size_t \<Rightarrow> int option
     \<Rightarrow> C2Error \<times> int option \<times> C2AllocationIon_Impl \<times> trace" where
  "Impl_unmap os tr this a sz fenceFd =
     (if a \<noteq> mMapAddr this + mMapAlignmentBytes this \<or>
         sz + mMapAlignmentBytes this \<noteq> mMapSize this then
        (C2_BAD_VALUE, fenceFd, this, tr)
      else
        (let call = munmap (mMapAddr this) (mMapSize this);
             (err, errno) = munmap_ret os tr call
         in if err \<noteq> 0 then (c2_map_errno [N_EINVAL] errno, fenceFd, this, tr @ [call])
            else (C2_OK, (case fenceFd of None \<Rightarrow> None | Some _ \<Rightarrow> Some (- 1)), this,
                  tr @ [call])))"

text \<open>\<^verbatim>\<open>~Impl\<close>: the calls it makes; the result of \<^verbatim>\<open>ion_free\<close> is discarded.\<close>

definition Impl_dtor :: "trace \<Rightarrow> C2AllocationIon_Impl \<Rightarrow> trace" where
  "Impl_dtor tr this =
     (let tr1 = (if mMapFd this \<noteq> - 1 then tr @ [close (mMapFd this)] else tr)
      in tr1 @ [ion_free (ionFd (mHandle this)) (buffer (mHandle this))])"

definition Impl_status :: "C2AllocationIon_Impl \<Rightarrow> C2Error" where
  "Impl_status this = mInit this"

text \<open>
  Modelled from the spec: the base class \<^verbatim>\<open>C2LinearAllocation\<close> is declared in a header
  that is not part of the sources; it keeps the capacity given at creation, a \<^verbatim>\<open>uint32_t\<close>.
  Every size passed to it in this file comes from a \<^verbatim>\<open>uint32_t\<close>. The allocation object
  is this capacity and the \<^verbatim>\<open>Impl\<close> it owns.
\<close>

record C2AllocationIon =
  alloc_capacity :: uint32_t
  mImpl :: C2AllocationIon_Impl

definition C2AllocationIon_ctor_alloc ::
  "env \<Rightarrow> trace \<Rightarrow> indeterminate \<Rightarrow> int \<Rightarrow> size_t \<Rightarrow> size_t \<Rightarrow> uint32_t \<Rightarrow> uint32_t
     \<Rightarrow> C2AllocationIon \<times> trace" where
  "C2AllocationIon_ctor_alloc os tr u fd sz align heapMask flags =
     (let (impl, tr1) = Impl_ctor_alloc os tr u fd sz align heapMask flags
      in (\<lparr>alloc_capacity = ucast sz, mImpl = impl\<rparr>, tr1))"

definition C2AllocationIon_ctor_import ::
  "env \<Rightarrow> trace \<Rightarrow> indeterminate \<Rightarrow> int \<Rightarrow> size_t \<Rightarrow> int \<Rightarrow> C2AllocationIon \<times> trace" where
  "C2AllocationIon_ctor_import os tr u fd sz shareFd =
     (let (impl, tr1) = Impl_ctor_import os tr u fd sz shareFd
      in (\<lparr>alloc_capacity = ucast sz, mImpl = impl\<rparr>, tr1))"

definition C2AllocationIon_dtor :: "trace \<Rightarrow> C2AllocationIon \<Rightarrow> trace" where
  "C2AllocationIon_dtor tr this = Impl_dtor tr (mImpl this)"

definition C2AllocationIon_map ::
  "env \<Rightarrow> trace \<Rightarrow> C2AllocationIon \<Rightarrow> size_t \<Rightarrow> size_t \<Rightarrow> C2MemoryUsage \<Rightarrow> int option
     \<Rightarrow> C2Error \<times> addr \<times> C2AllocationIon \<times> trace" where
  "C2AllocationIon_map os tr this offset sz usage fenceFd =
     (let (err, a, impl, tr1) = Impl_map os tr (mImpl this) offset sz usage fenceFd
      in (err, a, this\<lparr>mImpl := impl\<rparr>, tr1))"

definition C2AllocationIon_unmap ::
  "env \<Rightarrow> trace \<Rightarrow> C2AllocationIon \<Rightarrow> addr \<Rightarrow> size_t \<Rightarrow> int option
     \<Rightarrow> C2Error \<times> int option \<times> C2AllocationIon \<times> trace" where
  "C2AllocationIon_unmap os tr this a sz fenceFd =
     (let (err, fenceFd1, impl, tr1) = Impl_unmap os tr (mImpl this) a sz fenceFd
      in (err, fenceFd1, this\<lparr>mImpl := impl\<rparr>, tr1))"

definition C2AllocationIon_status :: "C2AllocationIon \<Rightarrow> C2Error" where
  "C2AllocationIon_status this = Impl_status (mImpl this)"

definition C2AllocationIon_isValid :: "C2AllocationIon \<Rightarrow> bool" where
  "C2AllocationIon_isValid this = (Impl_status (mImpl this) = C2_OK)"

definition C2AllocationIon_handle :: "C2AllocationIon \<Rightarrow> C2HandleIon" where
  "C2AllocationIon_handle this = mHandle (mImpl this)"

subsection \<open>ION allocator (lines 346--449)\<close>

record C2AllocatorIon =
  allocator_mInit :: C2Error
  mIonFd :: int

definition C2AllocatorIon_ctor :: "env \<Rightarrow> trace \<Rightarrow> C2AllocatorIon \<times> trace" where
  "C2AllocatorIon_ctor os tr =
     (let (fd, errno) = ion_open_ret os tr;
          this = \<lparr>allocator_mInit = C2_OK, mIonFd = fd\<rparr>
      in (if mIonFd this < 0 then
            (if errno = ENOENT then this\<lparr>allocator_mInit := C2_UNSUPPORTED\<rparr>
             else this\<lparr>allocator_mInit := c2_map_errno [N_EACCES] errno\<rparr>)
          else this,
          tr @ [ion_open]))"

text \<open>\<^verbatim>\<open>~C2AllocatorIon\<close>: the calls it makes.\<close>

definition C2AllocatorIon_dtor :: "trace \<Rightarrow> C2AllocatorIon \<Rightarrow> trace" where
  "C2AllocatorIon_dtor tr this =
     (if allocator_mInit this = C2_OK then tr @ [ion_close (mIonFd this)] else tr)"

text \<open>
  What a \<^verbatim>\<open>std::shared_ptr<C2LinearAllocation>\<close> holds: nothing (the null pointer), or
  an allocation together with whether this pointer is its last owner. Assigning
  \<^verbatim>\<open>nullptr\<close> to the pointer releases what it holds; when it was the last owner, the
  destructor of the allocation runs and makes its calls.
\<close>

type_synonym held_allocation = "(C2AllocationIon \<times> bool) option"

definition shared_ptr_reset :: "trace \<Rightarrow> held_allocation \<Rightarrow> trace" where
  "shared_ptr_reset tr p =
     (case p of
        None \<Rightarrow> tr
      | Some (a, last_owner) \<Rightarrow> if last_owner then C2AllocationIon_dtor tr a else tr)"

text \<open>
  \<^verbatim>\<open>allocateLinearBuffer\<close> and \<^verbatim>\<open>recreateLinearBuffer\<close>. The argument \<open>allocation0\<close> is
  what \<^verbatim>\<open>*allocation\<close> holds on entry, released by the first statement; the result is the
  error returned, the allocation that \<^verbatim>\<open>*allocation\<close> holds on return, of which it is then
  the only owner, and the trace. When the new allocation is not stored, its only owner
  goes out of scope and its destructor runs. In \<^verbatim>\<open>recreateLinearBuffer\<close> the handle is read
  after the validity check has passed, so it is not null there.
\<close>

definition allocateLinearBuffer ::
  "env \<Rightarrow> trace \<Rightarrow> indeterminate \<Rightarrow> C2AllocatorIon \<Rightarrow> uint32_t \<Rightarrow> C2MemoryUsage
     \<Rightarrow> held_allocation \<Rightarrow> C2Error \<times> C2AllocationIon option \<times> trace" where
  "allocateLinearBuffer os tr u this capacity usage allocation0 =
     (let tr0 = shared_ptr_reset tr allocation0;
          allocation = None
      in if allocator_mInit this \<noteq> C2_OK then (C2_UNSUPPORTED, allocation, tr0)
         else
           (let align = 0;
                heapMask = NOT 0;
                flags = 0;
                (alloc, tr1) = C2AllocationIon_ctor_alloc os tr0 u (mIonFd this) (ucast capacity)
                                 align heapMask flags;
                ret = C2AllocationIon_status alloc
            in if ret = C2_OK then (ret, Some alloc, tr1)
               else (ret, allocation, C2AllocationIon_dtor tr1 alloc)))"

definition recreateLinearBuffer ::
  "env \<Rightarrow> trace \<Rightarrow> indeterminate \<Rightarrow> C2AllocatorIon \<Rightarrow> C2HandleIon option
     \<Rightarrow> held_allocation \<Rightarrow> C2Error \<times> C2AllocationIon option \<times> trace" where
  "recreateLinearBuffer os tr u this handle allocation0 =
     (let tr0 = shared_ptr_reset tr allocation0;
          allocation = None
      in if allocator_mInit this \<noteq> C2_OK then (C2_UNSUPPORTED, allocation, tr0)
         else if \<not> isValid handle then (C2_BAD_VALUE, allocation, tr0)
         else
           (case handle of
              None \<Rightarrow> (C2_BAD_VALUE, allocation, tr0)
            | Some h \<Rightarrow>
                (let (alloc, tr1) = C2AllocationIon_ctor_import os tr0 u (mIonFd this) 0 (buffer h);
                     ret = C2AllocationIon_status alloc
                 in if ret = C2_OK then (ret, Some alloc, tr1)
                    else (ret, allocation, C2AllocationIon_dtor tr1 alloc))))"

subsection \<open>Capacity and range aspects\<close>

text \<open>
  Modelled from the spec: the classes \<^verbatim>\<open>_C2LinearCapacityAspect\<close>, \<^verbatim>\<open>_C2LinearRangeAspect\<close>
  and \<^verbatim>\<open>_C2EditableLinearRange\<close> are declared in a header that is not part of the sources.
  A range is a capacity with an offset and a size. Built from a capacity alone it is the
  full capacity; built from a capacity, an offset and a size it is silently clamped:
  the offset to the capacity, the size to what is left after the offset. The two setters
  of the editable range, used to bind a write view, clamp the same way. A null parent
  gives capacity 0.
\<close>

record LinearRange =
  r_capacity :: uint32_t
  r_offset :: uint32_t
  r_size :: uint32_t

definition LinearRange_full :: "uint32_t \<Rightarrow> LinearRange" where
  "LinearRange_full cap = \<lparr>r_capacity = cap, r_offset = 0, r_size = cap\<rparr>"

definition LinearRange_clamped :: "uint32_t \<Rightarrow> size_t \<Rightarrow> size_t \<Rightarrow> LinearRange" where
  "LinearRange_clamped cap offset sz =
     (let off = min offset (ucast cap);
          len = min sz (ucast cap - off)
      in \<lparr>r_capacity = cap, r_offset = ucast off, r_size = ucast len\<rparr>)"

definition setOffset_be :: "'a LinearRange_scheme \<Rightarrow> uint32_t \<Rightarrow> 'a LinearRange_scheme" where
  "setOffset_be r offset =
     (let off = min offset (r_capacity r)
      in r\<lparr>r_offset := off, r_size := min (r_size r) (r_capacity r - off)\<rparr>)"

definition setSize_be :: "'a LinearRange_scheme \<Rightarrow> uint32_t \<Rightarrow> 'a LinearRange_scheme" where
  "setSize_be r sz = r\<lparr>r_size := min sz (r_capacity r - r_offset r)\<rparr>"

text \<open>The invariant of a range: the window lies inside the capacity.\<close>

definition range_ok :: "'a LinearRange_scheme \<Rightarrow> bool" where
  "range_ok r = (r_offset r \<le> r_capacity r \<and> r_size r \<le> r_capacity r - r_offset r)"

subsection \<open>Fences and acquirables\<close>

text \<open>
  Modelled from the spec: a fence is a placeholder that is always signalled, and an
  acquirable is the read-only triple of an error, a fence and a view.
\<close>

datatype C2Fence = C2Fence

record 'v C2Acquirable =
  acq_error :: C2Error
  acq_fence :: C2Fence
  acq_view :: 'v

definition C2Acquirable_ctor :: "C2Error \<Rightarrow> C2Fence \<Rightarrow> 'v \<Rightarrow> 'v C2Acquirable" where
  "C2Acquirable_ctor e f v = \<lparr>acq_error = e, acq_fence = f, acq_view = v\<rparr>"

subsection \<open>Read and write views (lines 478--556)\<close>

record C2ReadView =
  rv_capacity :: uint32_t
  mData :: addr
  rv_mError :: C2Error

definition C2ReadView_ctor :: "uint32_t \<Rightarrow> addr \<Rightarrow> C2ReadView" where
  "C2ReadView_ctor parent_capacity d =
     \<lparr>rv_capacity = parent_capacity, mData = d, rv_mError = C2_OK\<rparr>"

definition C2ReadView_ctor_error :: "C2Error \<Rightarrow> C2ReadView" where
  "C2ReadView_ctor_error e = \<lparr>rv_capacity = 0, mData = nullptr, rv_mError = e\<rparr>"

definition C2ReadView_data :: "C2ReadView \<Rightarrow> addr" where
  "C2ReadView_data this = mData this"

definition C2ReadView_error :: "C2ReadView \<Rightarrow> C2Error" where
  "C2ReadView_error this = rv_mError this"

definition subView :: "C2ReadView \<Rightarrow> size_t \<Rightarrow> size_t \<Rightarrow> C2ReadView" where
  "subView this offset sz =
     (let offset1 = (if offset > ucast (rv_capacity this) then ucast (rv_capacity this)
                     else offset);
          sz1 = (if sz > ucast (rv_capacity this) - offset1
                 then ucast (rv_capacity this) - offset1 else sz);
          newCapacity = (ucast sz1 :: uint32_t)
      in C2ReadView_ctor newCapacity (C2ReadView_data this + offset1))"

record C2WriteView = LinearRange +
  wv_mBase :: addr
  wv_mError :: C2Error

definition C2WriteView_ctor :: "'a LinearRange_scheme \<Rightarrow> addr \<Rightarrow> C2WriteView" where
  "C2WriteView_ctor parent b =
     LinearRange.extend (LinearRange_full (r_capacity parent))
       (C2WriteView.fields b C2_OK)"

definition C2WriteView_ctor_error :: "C2Error \<Rightarrow> C2WriteView" where
  "C2WriteView_ctor_error e =
     LinearRange.extend (LinearRange_full 0) (C2WriteView.fields nullptr e)"

definition C2WriteView_base :: "C2WriteView \<Rightarrow> addr" where
  "C2WriteView_base this = wv_mBase this"



subsection \<open>Linear blocks (lines 453--697)\<close>

text \<open>
  A \<^verbatim>\<open>std::shared_ptr<C2LinearAllocation>\<close> is a reference into a store of allocations;
  blocks built from the same pointer hold the same reference and see the same object.
  Pointers held by blocks are not null.
\<close>

type_synonym alloc_ref = nat
type_synonym heap = "alloc_ref \<Rightarrow> C2AllocationIon"

text \<open>
  \<^verbatim>\<open>C2ConstLinearBlock::Impl\<close> and \<^verbatim>\<open>C2LinearBlock::Impl\<close> have the same four members;
  the second has a fence in addition.
\<close>

record Block_Impl =
  mAllocation :: alloc_ref
  mBase :: addr
  mSize :: size_t
  mError :: C2Error

record C2LinearBlock_Impl = Block_Impl +
  impl_mFence :: C2Fence

definition C2ConstLinearBlock_Impl_ctor :: "alloc_ref \<Rightarrow> Block_Impl" where
  "C2ConstLinearBlock_Impl_ctor alloc =
     \<lparr>mAllocation = alloc, mBase = nullptr, mSize = 0, mError = C2_CORRUPTED\<rparr>"

definition C2LinearBlock_Impl_ctor :: "alloc_ref \<Rightarrow> C2LinearBlock_Impl" where
  "C2LinearBlock_Impl_ctor alloc =
     \<lparr>mAllocation = alloc, mBase = nullptr, mSize = 0, mError = C2_CORRUPTED,
      impl_mFence = C2Fence\<rparr>"

text \<open>\<^verbatim>\<open>C2Block1D\<close>: a range over the allocation held by its own \<^verbatim>\<open>Impl\<close>.\<close>

record C2Block1D = LinearRange +
  block_mAllocation :: alloc_ref

record C2ConstLinearBlock = C2Block1D +
  const_mImpl :: Block_Impl
  mFence :: C2Fence

record C2LinearBlock = C2Block1D +
  linear_mImpl :: C2LinearBlock_Impl

definition C2ConstLinearBlock_ctor :: "heap \<Rightarrow> alloc_ref \<Rightarrow> C2ConstLinearBlock" where
  "C2ConstLinearBlock_ctor H alloc =
     (let r = LinearRange_full (alloc_capacity (H alloc))
      in \<lparr>r_capacity = r_capacity r, r_offset = r_offset r, r_size = r_size r,
          block_mAllocation = alloc, const_mImpl = C2ConstLinearBlock_Impl_ctor alloc,
          mFence = C2Fence\<rparr>)"

definition C2ConstLinearBlock_ctor_range ::
  "heap \<Rightarrow> alloc_ref \<Rightarrow> size_t \<Rightarrow> size_t \<Rightarrow> C2ConstLinearBlock" where
  "C2ConstLinearBlock_ctor_range H alloc offset sz =
     (let r = LinearRange_clamped (alloc_capacity (H alloc)) offset sz
      in \<lparr>r_capacity = r_capacity r, r_offset = r_offset r, r_size = r_size r,
          block_mAllocation = alloc, const_mImpl = C2ConstLinearBlock_Impl_ctor alloc,
          mFence = C2Fence\<rparr>)"


definition C2LinearBlock_ctor_range ::
  "heap \<Rightarrow> alloc_ref \<Rightarrow> size_t \<Rightarrow> size_t \<Rightarrow> C2LinearBlock" where
  "C2LinearBlock_ctor_range H alloc offset sz =
     (let r = LinearRange_clamped (alloc_capacity (H alloc)) offset sz
      in \<lparr>r_capacity = r_capacity r, r_offset = r_offset r, r_size = r_size r,
          block_mAllocation = alloc, linear_mImpl = C2LinearBlock_Impl_ctor alloc\<rparr>)"

text \<open>
  \<^verbatim>\<open>C2ConstLinearBlock::Impl::map\<close> and \<^verbatim>\<open>C2LinearBlock::Impl::map\<close>: the object, the store
  and the trace afterwards.
\<close>

definition C2ConstLinearBlock_Impl_map ::
  "env \<Rightarrow> trace \<Rightarrow> heap \<Rightarrow> Block_Impl \<Rightarrow> size_t \<Rightarrow> size_t \<Rightarrow> Block_Impl \<times> heap \<times> trace" where
  "C2ConstLinearBlock_Impl_map os tr H this offset sz =
     (if mBase this = nullptr then
        (let (err, base, alloc1, tr1) =
               C2AllocationIon_map os tr (H (mAllocation this)) offset sz
                 \<lparr>mConsumer = kSoftwareRead, mProducer = 0\<rparr> None;
             this1 = this\<lparr>mError := err\<rparr>
         in (if mError this1 = C2_OK then this1\<lparr>mBase := base, mSize := sz\<rparr> else this1,
             H(mAllocation this := alloc1), tr1))
      else (this, H, tr))"

definition C2LinearBlock_Impl_map ::
  "env \<Rightarrow> trace \<Rightarrow> heap \<Rightarrow> C2LinearBlock_Impl \<Rightarrow> size_t
     \<Rightarrow> C2LinearBlock_Impl \<times> heap \<times> trace" where
  "C2LinearBlock_Impl_map os tr H this capacity =
     (if mBase this = nullptr then
        (let (err, base, alloc1, tr1) =
               C2AllocationIon_map os tr (H (mAllocation this)) 0 capacity
                 \<lparr>mConsumer = kSoftwareRead, mProducer = kSoftwareWrite\<rparr> None;
             this1 = this\<lparr>mError := err\<rparr>
         in (if mError this1 = C2_OK then this1\<lparr>mBase := base, mSize := capacity\<rparr> else this1,
             H(mAllocation this := alloc1), tr1))
      else (this, H, tr))"

definition C2ConstLinearBlock_Impl_subBlock ::
  "heap \<Rightarrow> Block_Impl \<Rightarrow> size_t \<Rightarrow> size_t \<Rightarrow> C2ConstLinearBlock" where
  "C2ConstLinearBlock_Impl_subBlock H this offset sz =
     C2ConstLinearBlock_ctor_range H (mAllocation this) offset sz"

definition C2LinearBlock_Impl_share ::
  "heap \<Rightarrow> C2LinearBlock_Impl \<Rightarrow> size_t \<Rightarrow> size_t \<Rightarrow> C2Fence \<Rightarrow> C2ConstLinearBlock" where
  "C2LinearBlock_Impl_share H this offset sz fence =
     C2ConstLinearBlock_ctor_range H (mAllocation this) offset sz"

text \<open>
  \<^verbatim>\<open>C2ConstLinearBlock::map\<close> and \<^verbatim>\<open>C2LinearBlock::map\<close>: the acquirable returned, the
  block, the store and the trace afterwards.
\<close>

definition C2ConstLinearBlock_map ::
  "env \<Rightarrow> trace \<Rightarrow> heap \<Rightarrow> C2ConstLinearBlock
     \<Rightarrow> C2ReadView C2Acquirable \<times> C2ConstLinearBlock \<times> heap \<times> trace" where
  "C2ConstLinearBlock_map os tr H this =
     (let (impl, H1, tr1) =
            C2ConstLinearBlock_Impl_map os tr H (const_mImpl this) (ucast (r_offset this))
              (ucast (r_size this));
          this1 = this\<lparr>const_mImpl := impl\<rparr>
      in if mBase impl = nullptr then
           (let view = C2ReadView_ctor_error (mError impl)
            in (C2Acquirable_ctor (mError impl) (mFence this1) view, this1, H1, tr1))
         else
           (let newCapacity = r_size this1;
                view = C2ReadView_ctor newCapacity (mBase impl)
            in (C2Acquirable_ctor (mError impl) (mFence this1) view, this1, H1, tr1)))"

definition C2ConstLinearBlock_subBlock ::
  "heap \<Rightarrow> C2ConstLinearBlock \<Rightarrow> size_t \<Rightarrow> size_t \<Rightarrow> C2ConstLinearBlock" where
  "C2ConstLinearBlock_subBlock H this offset sz =
     C2ConstLinearBlock_Impl_subBlock H (const_mImpl this) offset sz"

definition C2LinearBlock_map ::
  "env \<Rightarrow> trace \<Rightarrow> heap \<Rightarrow> C2LinearBlock
     \<Rightarrow> C2WriteView C2Acquirable \<times> C2LinearBlock \<times> heap \<times> trace" where
  "C2LinearBlock_map os tr H this =
     (let (impl, H1, tr1) =
            C2LinearBlock_Impl_map os tr H (linear_mImpl this) (ucast (r_capacity this));
          this1 = this\<lparr>linear_mImpl := impl\<rparr>
      in if mBase impl = nullptr then
           (let view = C2WriteView_ctor_error (mError impl)
            in (C2Acquirable_ctor (mError impl) (impl_mFence impl) view, this1, H1, tr1))
         else
           (let view = C2WriteView_ctor this1 (mBase impl);
                view1 = setOffset_be view (r_offset this1);
                view2 = setSize_be view1 (r_size this1)
            in (C2Acquirable_ctor (mError impl) (impl_mFence impl) view2, this1, H1, tr1)))"

definition C2LinearBlock_share ::
  "heap \<Rightarrow> C2LinearBlock \<Rightarrow> size_t \<Rightarrow> size_t \<Rightarrow> C2Fence \<Rightarrow> C2ConstLinearBlock" where
  "C2LinearBlock_share H this offset sz fence =
     C2LinearBlock_Impl_share H (linear_mImpl this) offset sz fence"

subsection \<open>Auxiliary definitions for the statements\<close>

text \<open>
  The protection and the flags that \<^verbatim>\<open>Impl::map\<close> computes from the usage before it
  calls the driver or \<^verbatim>\<open>mmap\<close>.
\<close>

definition map_prot :: "C2MemoryUsage \<Rightarrow> int" where
  "map_prot usage =
     (if mConsumer usage AND GRALLOC_USAGE_SW_READ_MASK \<noteq> 0 then PROT_READ else PROT_NONE) OR
     (if mProducer usage AND GRALLOC_USAGE_SW_WRITE_MASK \<noteq> 0 then PROT_WRITE else PROT_NONE)"

definition map_flags :: "C2MemoryUsage \<Rightarrow> int" where
  "map_flags usage =
     (if mProducer usage AND GRALLOC_USAGE_SW_WRITE_MASK \<noteq> 0 then MAP_SHARED else MAP_PRIVATE)"

text \<open>
  Two environments for concrete runs: one in which every call succeeds, one in which
  every call fails. The objects below are what the code builds in the first one.
\<close>

definition demo_env :: env where
  "demo_env =
     \<lparr>ion_open_ret = (\<lambda>_. (3, 0)),
      ion_alloc_ret = (\<lambda>_ _. (0, 7)),
      ion_import_ret = (\<lambda>_ _. (0, 7)),
      ion_map_ret = (\<lambda>_ _. (0, Some 0x10000, Some 5)),
      mmap_ret = (\<lambda>_ _. (0x20000, 0)),
      munmap_ret = (\<lambda>_ _. (0, 0))\<rparr>"

definition failing_env :: env where
  "failing_env =
     \<lparr>ion_open_ret = (\<lambda>_. (- 1, ENOENT)),
      ion_alloc_ret = (\<lambda>_ _. (- ENOMEM, - 1)),
      ion_import_ret = (\<lambda>_ _. (- EINVAL, - 1)),
      ion_map_ret = (\<lambda>_ _. (- EINVAL, None, None)),
      mmap_ret = (\<lambda>_ _. (MAP_FAILED, EINVAL)),
      munmap_ret = (\<lambda>_ _. (- 1, EINVAL))\<rparr>"

definition demo_indeterminate :: indeterminate where
  "demo_indeterminate = \<lparr>i_mMapAddr = 0, i_mMapAlignmentBytes = 0, i_mMapSize = 0\<rparr>"

definition no_usage :: C2MemoryUsage where
  "no_usage = \<lparr>mConsumer = 0, mProducer = 0\<rparr>"

definition read_usage :: C2MemoryUsage where
  "read_usage = \<lparr>mConsumer = kSoftwareRead, mProducer = 0\<rparr>"

text \<open>A fresh allocation of 4096 bytes, and the same allocation after a first map.\<close>

definition demo_alloc :: C2AllocationIon where
  "demo_alloc =
     \<lparr>alloc_capacity = 4096,
      mImpl = \<lparr>mInit = C2_OK, mHandle = C2HandleIon_ctor 3 7, mMapFd = - 1, mMapAddr = 0,
               mMapAlignmentBytes = 0, mMapSize = 0, mCapacity = 4096\<rparr>\<rparr>"

definition demo_impl :: C2AllocationIon_Impl where
  "demo_impl =
     \<lparr>mInit = C2_OK, mHandle = C2HandleIon_ctor 3 7, mMapFd = 5, mMapAddr = 0x10000,
      mMapAlignmentBytes = 0, mMapSize = 4096, mCapacity = 4096\<rparr>"

definition demo_heap :: heap where
  "demo_heap = (\<lambda>_. demo_alloc)"

definition demo_parent :: C2ConstLinearBlock where
  "demo_parent = C2ConstLinearBlock_ctor_range demo_heap 0 16 100"

definition demo_block :: C2LinearBlock where
  "demo_block = C2LinearBlock_ctor_range demo_heap 0 16 100"

section \<open>Properties\<close>

subsection \<open>The errno mapping\<close>

lemma c2_errno2error_impl_fixed:
  "c2_errno2error_impl E =
     (if errno_of E = 0 then C2_OK
      else if errno_of E = EINVAL then C2_BAD_VALUE
      else if errno_of E = EACCES \<or> errno_of E = EPERM then C2_NO_PERMISSION
      else C2_NO_MEMORY)"
  by (cases E) (simp_all add: EINVAL_def EACCES_def EPERM_def ENOMEM_def)

lemma c2_map_errno_impl_listed:
  "result \<in> errno_of ` set N \<Longrightarrow>
     c2_map_errno_impl N result =
       (if result = 0 then C2_OK
        else if result = EINVAL then C2_BAD_VALUE
        else if result = EACCES \<or> result = EPERM then C2_NO_PERMISSION
        else C2_NO_MEMORY)"
proof (induction N)
  case Nil
  then show ?case by simp
next
  case (Cons E N)
  show ?case
  proof (cases "result = errno_of E")
    case True
    then show ?thesis using c2_errno2error_impl_fixed [of E] by simp
  next
    case False
    with Cons show ?thesis by auto
  qed
qed

lemma c2_map_errno_impl_unlisted:
  "result \<notin> errno_of ` set N \<Longrightarrow>
     c2_map_errno_impl N result = (if result = 0 then C2_OK else C2_CORRUPTED)"
  by (induction N) auto

lemma c2_map_errno_impl_zero: "c2_map_errno_impl N 0 = C2_OK"
proof (cases "0 \<in> errno_of ` set N")
  case True
  then show ?thesis using c2_map_errno_impl_listed [of 0 N] by simp
next
  case False
  then show ?thesis using c2_map_errno_impl_unlisted [of 0 N] by simp
qed

lemma c2_map_errno_nonzero: "result \<noteq> 0 \<Longrightarrow> c2_map_errno N result \<noteq> C2_OK"
proof (cases "result \<in> errno_of ` set N")
  case True
  assume "result \<noteq> 0"
  then show ?thesis using c2_map_errno_impl_listed [OF True]
    by (simp add: c2_map_errno_def)
next
  case False
  assume "result \<noteq> 0"
  then show ?thesis using c2_map_errno_impl_unlisted [OF False]
    by (simp add: c2_map_errno_def)
qed

text \<open>
  The table is the template argument list of the call: an errno that has a
  specialisation but is not in the list of the call is not mapped by it.
\<close>

lemma c2_map_errno_other_table:
  "c2_map_errno [N_EINVAL] ENOMEM = C2_CORRUPTED \<and> c2_map_errno [N_EACCES] EINVAL = C2_CORRUPTED"
  by (simp add: c2_map_errno_def EINVAL_def ENOMEM_def EACCES_def)

text \<open>
  C2. The errno mapping is a total function of the table and the errno value. An errno
  listed in the table maps to its fixed domain error: 0 to Ok, EINVAL to BadValue, EACCES
  and EPERM to NoPermission, ENOMEM to NoMemory. An errno that is not listed maps to
  Corrupted when it is nonzero, and zero maps to Ok. Being a function, the mapping gives
  the same result for the same input.
\<close>

theorem c2_map_errno_table:
  "(result \<in> errno_of ` set N \<longrightarrow>
      c2_map_errno N result =
        (if result = 0 then C2_OK
         else if result = EINVAL then C2_BAD_VALUE
         else if result = EACCES \<or> result = EPERM then C2_NO_PERMISSION
         else C2_NO_MEMORY)) \<and>
   (result \<notin> errno_of ` set N \<and> result \<noteq> 0 \<longrightarrow> c2_map_errno N result = C2_CORRUPTED) \<and>
   (result = 0 \<longrightarrow> c2_map_errno N result = C2_OK)"
  using c2_map_errno_impl_listed [of result N] c2_map_errno_impl_unlisted [of result N]
    c2_map_errno_impl_zero [of N]
  by (simp add: c2_map_errno_def)

text \<open>The three tables the file instantiates, at listed and unlisted values.\<close>

theorem c2_map_errno_table_witness:
  "c2_map_errno [N_ENOMEM, N_EACCES, N_EINVAL] ENOMEM = C2_NO_MEMORY \<and>
   c2_map_errno [N_ENOMEM, N_EACCES, N_EINVAL] EACCES = C2_NO_PERMISSION \<and>
   c2_map_errno [N_ENOMEM, N_EACCES, N_EINVAL] EINVAL = C2_BAD_VALUE \<and>
   c2_map_errno [N_EINVAL] ENOENT = C2_CORRUPTED \<and>
   c2_map_errno [N_EACCES] 0 = C2_OK"
  using c2_map_errno_table [of ENOMEM "[N_ENOMEM, N_EACCES, N_EINVAL]"]
    c2_map_errno_table [of EACCES "[N_ENOMEM, N_EACCES, N_EINVAL]"]
    c2_map_errno_table [of EINVAL "[N_ENOMEM, N_EACCES, N_EINVAL]"]
    c2_map_errno_table [of ENOENT "[N_EINVAL]"]
    c2_map_errno_table [of 0 "[N_EACCES]"]
  by (simp add: EINVAL_def EACCES_def EPERM_def ENOMEM_def ENOENT_def)

subsection \<open>The allocator\<close>

lemma C2AllocatorIon_ctor_failed:
  assumes "ion_open_ret os tr = (fd, e)" and "fd < 0" and "e \<noteq> 0"
  shows "allocator_mInit (fst (C2AllocatorIon_ctor os tr)) \<noteq> C2_OK"
  using assms c2_map_errno_nonzero [of e "[N_EACCES]"]
  by (simp add: C2AllocatorIon_ctor_def Let_def)

lemma C2AllocatorIon_ctor_trace: "snd (C2AllocatorIon_ctor os tr) = tr @ [ion_open]"
  by (simp add: C2AllocatorIon_ctor_def Let_def split: prod.split)

text \<open>
  Releasing the output pointer: nothing happens for a null pointer and for a pointer
  that is not the last owner; the last owner runs the destructor, which closes the
  mapped descriptor, if one is recorded, and frees the buffer.
\<close>

lemma shared_ptr_reset_None: "shared_ptr_reset tr None = tr"
  by (simp add: shared_ptr_reset_def)

lemma shared_ptr_reset_shared: "shared_ptr_reset tr (Some (a, False)) = tr"
  by (simp add: shared_ptr_reset_def)

lemma shared_ptr_reset_last:
  "shared_ptr_reset tr (Some (a, True)) =
     (if mMapFd (mImpl a) \<noteq> - 1 then tr @ [close (mMapFd (mImpl a))] else tr) @
     [ion_free (mIon (mHandle (mImpl a))) (mBuffer (mHandle (mImpl a)))]"
  by (simp add: shared_ptr_reset_def C2AllocationIon_dtor_def Impl_dtor_def Let_def ionFd_def
      buffer_def)

lemma shared_ptr_reset_extends: "\<exists>calls. shared_ptr_reset tr p = tr @ calls"
proof (cases p)
  case None
  then show ?thesis by (simp add: shared_ptr_reset_None)
next
  case (Some x)
  obtain a last_owner where x: "x = (a, last_owner)" by (cases x)
  show ?thesis
  proof (cases last_owner)
    case True
    then show ?thesis using Some x by (simp add: shared_ptr_reset_last)
  next
    case False
    then show ?thesis using Some x by (simp add: shared_ptr_reset_shared)
  qed
qed

lemma allocateLinearBuffer_broken:
  "allocator_mInit A \<noteq> C2_OK \<Longrightarrow>
     allocateLinearBuffer os tr u A capacity usage a0 =
       (C2_UNSUPPORTED, None, shared_ptr_reset tr a0)"
  by (simp add: allocateLinearBuffer_def Let_def)

lemma recreateLinearBuffer_broken:
  "allocator_mInit A \<noteq> C2_OK \<Longrightarrow>
     recreateLinearBuffer os tr u A handle a0 =
       (C2_UNSUPPORTED, None, shared_ptr_reset tr a0)"
  by (simp add: recreateLinearBuffer_def Let_def)

text \<open>
  A failing \<^verbatim>\<open>open\<close> leaves a nonzero \<^verbatim>\<open>errno\<close>. Were it zero, the default branch of the
  constructor would map it to \<^verbatim>\<open>C2_OK\<close> and the allocator would not be marked as failed.
\<close>

lemma C2AllocatorIon_ctor_errno_zero:
  "ion_open_ret os tr = (fd, 0) \<Longrightarrow> allocator_mInit (fst (C2AllocatorIon_ctor os tr)) = C2_OK"
  by (simp add: C2AllocatorIon_ctor_def Let_def c2_map_errno_def ENOENT_def EACCES_def)

text \<open>
  C1, as amended. If the driver cannot be opened (\<^verbatim>\<open>ion_open\<close> returns a negative
  descriptor and leaves an error number), the allocator is in a failed state from
  construction on: every later \<^verbatim>\<open>allocateLinearBuffer\<close> and \<^verbatim>\<open>recreateLinearBuffer\<close>,
  whatever its arguments and whatever the environment, returns Unsupported and stores
  no allocation without attempting the operation. The only calls it makes are those of
  releasing what the output pointer held on entry: none when that pointer is null or is
  not the last owner of its allocation, and otherwise the calls of the destructor of
  that allocation. When the open fails with ENOENT the status is Unsupported.
\<close>

theorem C2AllocatorIon_open_failure:
  assumes "ion_open_ret os tr = (fd, e)" and "fd < 0" and "e \<noteq> 0"
  shows "allocator_mInit (fst (C2AllocatorIon_ctor os tr)) \<noteq> C2_OK \<and>
         snd (C2AllocatorIon_ctor os tr) = tr @ [ion_open] \<and>
         allocateLinearBuffer os' tr' u (fst (C2AllocatorIon_ctor os tr)) capacity usage a0 =
           (C2_UNSUPPORTED, None, shared_ptr_reset tr' a0) \<and>
         recreateLinearBuffer os' tr' u (fst (C2AllocatorIon_ctor os tr)) handle a0 =
           (C2_UNSUPPORTED, None, shared_ptr_reset tr' a0) \<and>
         (a0 = None \<or> a0 = Some (held, False) \<longrightarrow>
            allocateLinearBuffer os' tr' u (fst (C2AllocatorIon_ctor os tr)) capacity usage a0 =
              (C2_UNSUPPORTED, None, tr') \<and>
            recreateLinearBuffer os' tr' u (fst (C2AllocatorIon_ctor os tr)) handle a0 =
              (C2_UNSUPPORTED, None, tr')) \<and>
         (a0 = Some (held, True) \<longrightarrow>
            shared_ptr_reset tr' a0 =
              (if mMapFd (mImpl held) \<noteq> - 1 then tr' @ [close (mMapFd (mImpl held))] else tr') @
              [ion_free (mIon (mHandle (mImpl held))) (mBuffer (mHandle (mImpl held)))]) \<and>
         (e = ENOENT \<longrightarrow> allocator_mInit (fst (C2AllocatorIon_ctor os tr)) = C2_UNSUPPORTED)"
proof -
  have failed: "allocator_mInit (fst (C2AllocatorIon_ctor os tr)) \<noteq> C2_OK"
    using assms by (rule C2AllocatorIon_ctor_failed)
  have enoent: "e = ENOENT \<longrightarrow> allocator_mInit (fst (C2AllocatorIon_ctor os tr)) = C2_UNSUPPORTED"
    using assms by (simp add: C2AllocatorIon_ctor_def Let_def)
  have quiet: "shared_ptr_reset tr' a0 = tr'" if "a0 = None \<or> a0 = Some (held, False)"
    using that shared_ptr_reset_None [of tr'] shared_ptr_reset_shared [of tr' held] by auto
  have last: "shared_ptr_reset tr' a0 =
      (if mMapFd (mImpl held) \<noteq> - 1 then tr' @ [close (mMapFd (mImpl held))] else tr') @
      [ion_free (mIon (mHandle (mImpl held))) (mBuffer (mHandle (mImpl held)))]"
    if "a0 = Some (held, True)"
    using that shared_ptr_reset_last [of tr' held] by simp
  have a: "allocateLinearBuffer os' tr' u (fst (C2AllocatorIon_ctor os tr)) capacity usage a0 =
           (C2_UNSUPPORTED, None, shared_ptr_reset tr' a0)"
    using failed by (rule allocateLinearBuffer_broken)
  have r: "recreateLinearBuffer os' tr' u (fst (C2AllocatorIon_ctor os tr)) handle a0 =
           (C2_UNSUPPORTED, None, shared_ptr_reset tr' a0)"
    using failed by (rule recreateLinearBuffer_broken)
  show ?thesis
    using failed enoent C2AllocatorIon_ctor_trace [of os tr] a r quiet last
    by simp
qed

theorem C2AllocatorIon_open_failure_witness:
  "ion_open_ret failing_env [] = (- 1, ENOENT) \<and>
   allocator_mInit (fst (C2AllocatorIon_ctor failing_env [])) = C2_UNSUPPORTED \<and>
   allocateLinearBuffer demo_env [ion_open] demo_indeterminate
     (fst (C2AllocatorIon_ctor failing_env [])) 4096 no_usage None =
     (C2_UNSUPPORTED, None, [ion_open]) \<and>
   recreateLinearBuffer demo_env [ion_open] demo_indeterminate
     (fst (C2AllocatorIon_ctor failing_env [])) (Some (C2HandleIon_ctor 3 7)) None =
     (C2_UNSUPPORTED, None, [ion_open]) \<and>
   allocateLinearBuffer demo_env [ion_open] demo_indeterminate
     (fst (C2AllocatorIon_ctor failing_env [])) 4096 no_usage (Some (demo_alloc, False)) =
     (C2_UNSUPPORTED, None, [ion_open]) \<and>
   ion_open_ret (failing_env\<lparr>ion_open_ret := \<lambda>_. (- 1, EACCES)\<rparr>) [] = (- 1, EACCES) \<and>
   allocator_mInit
     (fst (C2AllocatorIon_ctor (failing_env\<lparr>ion_open_ret := \<lambda>_. (- 1, EACCES)\<rparr>) [])) =
     C2_NO_PERMISSION \<and>
   recreateLinearBuffer demo_env [ion_open] demo_indeterminate
     (fst (C2AllocatorIon_ctor (failing_env\<lparr>ion_open_ret := \<lambda>_. (- 1, EACCES)\<rparr>) []))
     (Some (C2HandleIon_ctor 3 7)) (Some (demo_alloc\<lparr>mImpl := demo_impl\<rparr>, True)) =
     (C2_UNSUPPORTED, None, [ion_open, close 5, ion_free 3 7])"
proof -
  have opened: "ion_open_ret failing_env [] = (- 1, ENOENT)"
    by (simp add: failing_env_def)
  have denied: "ion_open_ret (failing_env\<lparr>ion_open_ret := \<lambda>_. (- 1, EACCES)\<rparr>) [] = (- 1, EACCES)"
    by simp
  have neg: "(- 1 :: int) < 0" by simp
  have nonzero: "ENOENT \<noteq> 0" "EACCES \<noteq> 0" by (simp_all add: ENOENT_def EACCES_def)
  have status: "allocator_mInit
     (fst (C2AllocatorIon_ctor (failing_env\<lparr>ion_open_ret := \<lambda>_. (- 1, EACCES)\<rparr>) [])) =
     C2_NO_PERMISSION"
    by (simp add: C2AllocatorIon_ctor_def c2_map_errno_def ENOENT_def EACCES_def)
  have held: "mMapFd demo_impl = 5" "mIon (mHandle demo_impl) = 3"
    "mBuffer (mHandle demo_impl) = 7"
    by (simp_all add: demo_impl_def C2HandleIon_ctor_def)
  show ?thesis
    using opened denied status
      C2AllocatorIon_open_failure [OF opened neg nonzero(1), where os' = demo_env
        and tr' = "[ion_open]" and u = demo_indeterminate and capacity = 4096
        and usage = no_usage and ?a0.0 = None and handle = "Some (C2HandleIon_ctor 3 7)"]
      C2AllocatorIon_open_failure [OF opened neg nonzero(1), where os' = demo_env
        and tr' = "[ion_open]" and u = demo_indeterminate and capacity = 4096
        and usage = no_usage and ?a0.0 = "Some (demo_alloc, False)" and held = demo_alloc
        and handle = "Some (C2HandleIon_ctor 3 7)"]
      C2AllocatorIon_open_failure [OF denied neg nonzero(2), where os' = demo_env
        and tr' = "[ion_open]" and u = demo_indeterminate and capacity = 4096
        and usage = no_usage and ?a0.0 = "Some (demo_alloc\<lparr>mImpl := demo_impl\<rparr>, True)"
        and held = "demo_alloc\<lparr>mImpl := demo_impl\<rparr>"
        and handle = "Some (C2HandleIon_ctor 3 7)"]
    by (simp add: held shared_ptr_reset_None shared_ptr_reset_shared)
qed

text \<open>
  C1 as stated fails on the code. The allocator whose open failed with ENOENT is asked
  to allocate while the output pointer is the last owner of a live allocation (driver
  descriptor 3, buffer 7): the call returns Unsupported and stores null, and releasing
  the pointer frees the buffer, a driver call. With a mapped allocation held, the mapped
  descriptor is closed as well.
\<close>

theorem C2AllocatorIon_open_failure_counterexample:
  "ion_open_ret failing_env [] = (- 1, ENOENT) \<and>
   allocator_mInit (fst (C2AllocatorIon_ctor failing_env [])) = C2_UNSUPPORTED \<and>
   allocateLinearBuffer demo_env [ion_open] demo_indeterminate
     (fst (C2AllocatorIon_ctor failing_env [])) 4096 no_usage (Some (demo_alloc, True)) =
     (C2_UNSUPPORTED, None, [ion_open, ion_free 3 7]) \<and>
   recreateLinearBuffer demo_env [ion_open] demo_indeterminate
     (fst (C2AllocatorIon_ctor failing_env [])) (Some (C2HandleIon_ctor 3 7))
     (Some (demo_alloc\<lparr>mImpl := demo_impl\<rparr>, True)) =
     (C2_UNSUPPORTED, None, [ion_open, close 5, ion_free 3 7])"
  by (simp add: allocateLinearBuffer_def recreateLinearBuffer_def C2AllocatorIon_ctor_def
      failing_env_def Let_def shared_ptr_reset_def C2AllocationIon_dtor_def Impl_dtor_def
      demo_alloc_def demo_impl_def C2HandleIon_ctor_def ionFd_def buffer_def)

subsection \<open>Handle validity\<close>

lemma isValid_iff:
  "isValid p \<longleftrightarrow>
     (\<exists>h. p = Some h \<and> version h = 24 \<and> numFds h = 2 \<and> numInts h = 1 \<and>
          mMagic h = 0x696F6E31)"
  by (cases p)
    (auto simp: isValid_def memcmp_cHeader_def cHeader_def kMagic_def C2HandleIon_version_def
      C2HandleIon_numFds_def C2HandleIon_numInts_def sizeof_C2Handle_def sizeof_mFds_def
      sizeof_mInts_def sizeof_int_def)

lemma isValid_C2HandleIon_ctor: "isValid (Some (C2HandleIon_ctor fd b))"
  by (simp add: isValid_def memcmp_cHeader_def C2HandleIon_ctor_def)

lemma recreateLinearBuffer_invalid:
  "allocator_mInit A = C2_OK \<Longrightarrow> \<not> isValid p \<Longrightarrow>
     recreateLinearBuffer os tr u A p a0 = (C2_BAD_VALUE, None, shared_ptr_reset tr a0)"
  by (simp add: recreateLinearBuffer_def Let_def)

text \<open>
  C3. The validity check returns false for the null handle, for a handle one of whose
  header fields (version, descriptor count, integer count) differs from the expected
  constant, and for a handle whose magic integer differs from the ION magic. On a
  working allocator, \<^verbatim>\<open>recreateLinearBuffer\<close> answers every handle that fails the check
  with BadValue and stores no allocation; the trace afterwards is the trace after the
  release of what the output pointer held on entry, so the rejected handle itself causes
  no call.
\<close>

theorem isValid_rejects:
  "\<not> isValid None \<and>
   (version h \<noteq> version cHeader \<or> numFds h \<noteq> numFds cHeader \<or> numInts h \<noteq> numInts cHeader
      \<longrightarrow> \<not> isValid (Some h)) \<and>
   (mMagic h \<noteq> kMagic \<longrightarrow> \<not> isValid (Some h)) \<and>
   (allocator_mInit A = C2_OK \<and> \<not> isValid p \<longrightarrow>
      recreateLinearBuffer os tr u A p a0 = (C2_BAD_VALUE, None, shared_ptr_reset tr a0))"
  using recreateLinearBuffer_invalid [of A p os tr u a0]
  by (auto simp: isValid_def memcmp_cHeader_def)

theorem isValid_rejects_witness:
  "\<not> isValid None \<and>
   numFds ((C2HandleIon_ctor 3 7)\<lparr>numFds := 1\<rparr>) \<noteq> numFds cHeader \<and>
   \<not> isValid (Some ((C2HandleIon_ctor 3 7)\<lparr>numFds := 1\<rparr>)) \<and>
   mMagic ((C2HandleIon_ctor 3 7)\<lparr>mMagic := 0\<rparr>) \<noteq> kMagic \<and>
   \<not> isValid (Some ((C2HandleIon_ctor 3 7)\<lparr>mMagic := 0\<rparr>)) \<and>
   allocator_mInit (fst (C2AllocatorIon_ctor demo_env [])) = C2_OK \<and>
   recreateLinearBuffer demo_env [ion_open] demo_indeterminate
     (fst (C2AllocatorIon_ctor demo_env [])) (Some ((C2HandleIon_ctor 3 7)\<lparr>numFds := 1\<rparr>)) None =
     (C2_BAD_VALUE, None, [ion_open]) \<and>
   recreateLinearBuffer demo_env [ion_open] demo_indeterminate
     (fst (C2AllocatorIon_ctor demo_env [])) None (Some (demo_alloc, True)) =
     (C2_BAD_VALUE, None, [ion_open, ion_free 3 7])"
proof -
  have header: "numFds ((C2HandleIon_ctor 3 7)\<lparr>numFds := 1\<rparr>) \<noteq> numFds cHeader"
    by (simp add: cHeader_def C2HandleIon_numFds_def sizeof_mFds_def sizeof_int_def)
  have magic: "mMagic ((C2HandleIon_ctor 3 7)\<lparr>mMagic := 0\<rparr>) \<noteq> kMagic"
    by (simp add: kMagic_def)
  have working: "allocator_mInit (fst (C2AllocatorIon_ctor demo_env [])) = C2_OK"
    by (simp add: C2AllocatorIon_ctor_def demo_env_def)
  have released: "shared_ptr_reset [ion_open] (Some (demo_alloc, True)) = [ion_open, ion_free 3 7]"
    by (simp add: shared_ptr_reset_last demo_alloc_def C2HandleIon_ctor_def)
  show ?thesis
    using header magic working
      isValid_rejects [where h = "(C2HandleIon_ctor 3 7)\<lparr>numFds := 1\<rparr>"
        and p = "Some ((C2HandleIon_ctor 3 7)\<lparr>numFds := 1\<rparr>)"
        and A = "fst (C2AllocatorIon_ctor demo_env [])" and os = demo_env
        and tr = "[ion_open]" and u = demo_indeterminate and ?a0.0 = None]
      isValid_rejects [where h = "(C2HandleIon_ctor 3 7)\<lparr>mMagic := 0\<rparr>"
        and p = None
        and A = "fst (C2AllocatorIon_ctor demo_env [])" and os = demo_env
        and tr = "[ion_open]" and u = demo_indeterminate and ?a0.0 = "Some (demo_alloc, True)"]
    by (simp add: released shared_ptr_reset_None)
qed

subsection \<open>What the allocator stores\<close>

lemma C2AllocationIon_dtor_extends: "\<exists>calls. C2AllocationIon_dtor tr a = tr @ calls"
  by (simp add: C2AllocationIon_dtor_def Impl_dtor_def Let_def)

lemma C2AllocationIon_ctor_alloc_extends:
  "\<exists>calls. snd (C2AllocationIon_ctor_alloc os tr u fd sz align heapMask flags) = tr @ calls"
  by (simp add: C2AllocationIon_ctor_alloc_def Impl_ctor_alloc_def Let_def split: prod.split)

lemma C2AllocationIon_ctor_import_extends:
  "\<exists>calls. snd (C2AllocationIon_ctor_import os tr u fd sz shareFd) = tr @ calls"
  by (simp add: C2AllocationIon_ctor_import_def Impl_ctor_import_def Let_def split: prod.split)

lemma allocateLinearBuffer_extends:
  "\<exists>calls. snd (snd (allocateLinearBuffer os tr u A capacity usage a0)) =
     shared_ptr_reset tr a0 @ calls"
proof -
  let ?tr0 = "shared_ptr_reset tr a0"
  let ?c = "C2AllocationIon_ctor_alloc os ?tr0 u (mIonFd A) (ucast capacity) 0 (- 1) 0"
  obtain c1 where c1: "snd ?c = ?tr0 @ c1"
    using C2AllocationIon_ctor_alloc_extends by blast
  obtain c2 where c2: "C2AllocationIon_dtor (snd ?c) (fst ?c) = snd ?c @ c2"
    using C2AllocationIon_dtor_extends by blast
  show ?thesis
    using c1 c2
    by (auto simp: allocateLinearBuffer_def Let_def split: prod.splits)
qed

lemma recreateLinearBuffer_extends:
  "\<exists>calls. snd (snd (recreateLinearBuffer os tr u A handle a0)) =
     shared_ptr_reset tr a0 @ calls"
proof (cases handle)
  case None
  then show ?thesis by (simp add: recreateLinearBuffer_def Let_def)
next
  case (Some h)
  let ?tr0 = "shared_ptr_reset tr a0"
  let ?c = "C2AllocationIon_ctor_import os ?tr0 u (mIonFd A) 0 (buffer h)"
  obtain c1 where c1: "snd ?c = ?tr0 @ c1"
    using C2AllocationIon_ctor_import_extends by blast
  obtain c2 where c2: "C2AllocationIon_dtor (snd ?c) (fst ?c) = snd ?c @ c2"
    using C2AllocationIon_dtor_extends by blast
  show ?thesis
    using Some c1 c2
    by (auto simp: recreateLinearBuffer_def Let_def split: prod.splits)
qed

text \<open>
  C10. \<^verbatim>\<open>allocateLinearBuffer\<close> and \<^verbatim>\<open>recreateLinearBuffer\<close> set the output pointer to
  null on entry, whatever it held: what it held is released before anything else
  happens, so the trace afterwards starts with the trace of that release. An allocation
  is stored exactly when the error returned is Ok; with any other error the output is
  null. The allocation stored with Ok is the one constructed by the call, and it is
  valid.
\<close>

theorem allocation_stored_iff_ok:
  "(allocateLinearBuffer os tr u A capacity usage a0 = (err, alloc, tr') \<longrightarrow>
      (err \<noteq> C2_OK \<longrightarrow> alloc = None) \<and>
      (err = C2_OK \<longrightarrow>
         alloc = Some (fst (C2AllocationIon_ctor_alloc os (shared_ptr_reset tr a0) u (mIonFd A)
                              (ucast capacity) 0 (- 1) 0)) \<and>
         (\<exists>a. alloc = Some a \<and> C2AllocationIon_status a = C2_OK)) \<and>
      (\<exists>calls. tr' = shared_ptr_reset tr a0 @ calls)) \<and>
   (recreateLinearBuffer os tr u A handle a0 = (err, alloc, tr') \<longrightarrow>
      (err \<noteq> C2_OK \<longrightarrow> alloc = None) \<and>
      (err = C2_OK \<longrightarrow>
         (\<exists>h. handle = Some h \<and>
            alloc = Some (fst (C2AllocationIon_ctor_import os (shared_ptr_reset tr a0) u
                                 (mIonFd A) 0 (buffer h)))) \<and>
         (\<exists>a. alloc = Some a \<and> C2AllocationIon_status a = C2_OK)) \<and>
      (\<exists>calls. tr' = shared_ptr_reset tr a0 @ calls))"
proof -
  have a: "(err \<noteq> C2_OK \<longrightarrow> alloc = None) \<and>
      (err = C2_OK \<longrightarrow>
         alloc = Some (fst (C2AllocationIon_ctor_alloc os (shared_ptr_reset tr a0) u (mIonFd A)
                              (ucast capacity) 0 (- 1) 0)) \<and>
         (\<exists>a. alloc = Some a \<and> C2AllocationIon_status a = C2_OK))"
    if "allocateLinearBuffer os tr u A capacity usage a0 = (err, alloc, tr')"
    using that
    by (auto simp: allocateLinearBuffer_def Let_def split: prod.splits if_splits)
  have at: "\<exists>calls. tr' = shared_ptr_reset tr a0 @ calls"
    if "allocateLinearBuffer os tr u A capacity usage a0 = (err, alloc, tr')"
    using that allocateLinearBuffer_extends [of os tr u A capacity usage a0] by simp
  have r: "(err \<noteq> C2_OK \<longrightarrow> alloc = None) \<and>
      (err = C2_OK \<longrightarrow>
         (\<exists>h. handle = Some h \<and>
            alloc = Some (fst (C2AllocationIon_ctor_import os (shared_ptr_reset tr a0) u
                                 (mIonFd A) 0 (buffer h)))) \<and>
         (\<exists>a. alloc = Some a \<and> C2AllocationIon_status a = C2_OK))"
    if "recreateLinearBuffer os tr u A handle a0 = (err, alloc, tr')"
    using that
    by (auto simp: recreateLinearBuffer_def Let_def split: prod.splits if_splits option.splits)
  have rt: "\<exists>calls. tr' = shared_ptr_reset tr a0 @ calls"
    if "recreateLinearBuffer os tr u A handle a0 = (err, alloc, tr')"
    using that recreateLinearBuffer_extends [of os tr u A handle a0] by simp
  show ?thesis using a at r rt by blast
qed

text \<open>
  Concrete runs on a working allocator, with the output pointer null and with the output
  pointer the last owner of an allocation.
\<close>

lemma demo_alloc_allocated:
  "allocateLinearBuffer demo_env [ion_open] demo_indeterminate
     (fst (C2AllocatorIon_ctor demo_env [])) 4096 no_usage None =
   (C2_OK, Some demo_alloc, [ion_open, ion_alloc 3 4096 0 (- 1) 0])"
  by (simp add: allocateLinearBuffer_def C2AllocatorIon_ctor_def C2AllocationIon_ctor_alloc_def
      Impl_ctor_alloc_def demo_env_def demo_indeterminate_def demo_alloc_def Let_def
      C2AllocationIon_status_def Impl_status_def C2HandleIon_ctor_def ionFd_def setBuffer_def
      shared_ptr_reset_def)

lemma demo_alloc_replaced:
  "allocateLinearBuffer demo_env [ion_open] demo_indeterminate
     (fst (C2AllocatorIon_ctor demo_env [])) 4096 no_usage (Some (demo_alloc, True)) =
   (C2_OK, Some demo_alloc, [ion_open, ion_free 3 7, ion_alloc 3 4096 0 (- 1) 0])"
  by (simp add: allocateLinearBuffer_def C2AllocatorIon_ctor_def C2AllocationIon_ctor_alloc_def
      Impl_ctor_alloc_def demo_env_def demo_indeterminate_def demo_alloc_def Let_def
      C2AllocationIon_status_def Impl_status_def C2HandleIon_ctor_def ionFd_def setBuffer_def
      shared_ptr_reset_def C2AllocationIon_dtor_def Impl_dtor_def buffer_def)

lemma failing_alloc_not_stored:
  "allocateLinearBuffer failing_env [ion_open] demo_indeterminate
     (fst (C2AllocatorIon_ctor demo_env [])) 4096 no_usage (Some (demo_alloc, True)) =
   (C2_NO_MEMORY, None,
    [ion_open, ion_free 3 7, ion_alloc 3 4096 0 (- 1) 0, ion_free 3 (- 1)])"
  by (simp add: allocateLinearBuffer_def C2AllocatorIon_ctor_def C2AllocationIon_ctor_alloc_def
      Impl_ctor_alloc_def demo_env_def failing_env_def demo_indeterminate_def Let_def
      C2AllocationIon_status_def Impl_status_def C2HandleIon_ctor_def ionFd_def buffer_def
      C2AllocationIon_dtor_def Impl_dtor_def c2_map_errno_def ENOMEM_def shared_ptr_reset_def
      demo_alloc_def)

lemma failing_import_not_stored:
  "recreateLinearBuffer failing_env [ion_open] demo_indeterminate
     (fst (C2AllocatorIon_ctor demo_env [])) (Some (C2HandleIon_ctor 3 7))
     (Some (demo_alloc, True)) =
   (C2_RAW (- 22), None, [ion_open, ion_free 3 7, ion_import 3 7, ion_free 3 (- 1)])"
  by (simp add: recreateLinearBuffer_def C2AllocatorIon_ctor_def C2AllocationIon_ctor_import_def
      Impl_ctor_import_def demo_env_def failing_env_def demo_indeterminate_def Let_def
      C2AllocationIon_status_def Impl_status_def C2HandleIon_ctor_def ionFd_def buffer_def
      C2AllocationIon_dtor_def Impl_dtor_def C2Error_of_int_def EINVAL_def isValid_def
      memcmp_cHeader_def shared_ptr_reset_def demo_alloc_def)

theorem allocation_stored_iff_ok_witness:
  "allocateLinearBuffer demo_env [ion_open] demo_indeterminate
     (fst (C2AllocatorIon_ctor demo_env [])) 4096 no_usage (Some (demo_alloc, True)) =
     (C2_OK, Some demo_alloc, [ion_open, ion_free 3 7, ion_alloc 3 4096 0 (- 1) 0]) \<and>
   C2AllocationIon_status demo_alloc = C2_OK \<and>
   allocateLinearBuffer failing_env [ion_open] demo_indeterminate
     (fst (C2AllocatorIon_ctor demo_env [])) 4096 no_usage (Some (demo_alloc, True)) =
     (C2_NO_MEMORY, None,
      [ion_open, ion_free 3 7, ion_alloc 3 4096 0 (- 1) 0, ion_free 3 (- 1)]) \<and>
   recreateLinearBuffer failing_env [ion_open] demo_indeterminate
     (fst (C2AllocatorIon_ctor demo_env [])) (Some (C2HandleIon_ctor 3 7))
     (Some (demo_alloc, True)) =
     (C2_RAW (- 22), None, [ion_open, ion_free 3 7, ion_import 3 7, ion_free 3 (- 1)])"
  using demo_alloc_replaced failing_alloc_not_stored failing_import_not_stored
    allocation_stored_iff_ok [where os = demo_env and tr = "[ion_open]"
      and u = demo_indeterminate and A = "fst (C2AllocatorIon_ctor demo_env [])"
      and capacity = 4096 and usage = no_usage and ?a0.0 = "Some (demo_alloc, True)"
      and err = C2_OK and alloc = "Some demo_alloc"
      and tr' = "[ion_open, ion_free 3 7, ion_alloc 3 4096 0 (- 1) 0]"
      and handle = None]
    allocation_stored_iff_ok [where os = failing_env and tr = "[ion_open]"
      and u = demo_indeterminate and A = "fst (C2AllocatorIon_ctor demo_env [])"
      and capacity = 4096 and usage = no_usage and ?a0.0 = "Some (demo_alloc, True)"
      and err = C2_NO_MEMORY and alloc = None
      and tr' = "[ion_open, ion_free 3 7, ion_alloc 3 4096 0 (- 1) 0, ion_free 3 (- 1)]"
      and handle = None]
    allocation_stored_iff_ok [where os = failing_env and tr = "[ion_open]"
      and u = demo_indeterminate and A = "fst (C2AllocatorIon_ctor demo_env [])"
      and capacity = 4096 and usage = no_usage and ?a0.0 = "Some (demo_alloc, True)"
      and err = "C2_RAW (- 22)" and alloc = None
      and tr' = "[ion_open, ion_free 3 7, ion_import 3 7, ion_free 3 (- 1)]"
      and handle = "Some (C2HandleIon_ctor 3 7)"]
  by simp

subsection \<open>Mapping and unmapping an allocation\<close>

lemma PROT_NONE_OR [simp]: "PROT_NONE OR x = x" "x OR PROT_NONE = x"
  by (simp_all add: PROT_NONE_def)

text \<open>\<^verbatim>\<open>Impl::map\<close> with the protection and the flags computed beforehand.\<close>

lemma Impl_map_prot:
  "Impl_map os tr this offset sz usage fenceFd =
     (let alignmentBytes = offset mod PAGE_SIZE;
          mapOffset = offset - alignmentBytes;
          mapSize = sz + alignmentBytes
      in if mMapFd this = - 1 then
           (let call = ion_map (ionFd (mHandle this)) (buffer (mHandle this)) mapSize
                         (map_prot usage) (map_flags usage) mapOffset;
                (ret, ptr, map_fd) = ion_map_ret os tr call;
                this1 = this\<lparr>mMapAddr := (case ptr of None \<Rightarrow> mMapAddr this | Some a \<Rightarrow> a),
                              mMapFd := (case map_fd of None \<Rightarrow> mMapFd this | Some f \<Rightarrow> f)\<rparr>
            in if ret \<noteq> 0 then
                 (c2_map_errno [N_EINVAL] (- ret), nullptr, this1\<lparr>mMapFd := - 1\<rparr>, tr @ [call])
               else
                 (C2_OK, mMapAddr this1 + alignmentBytes,
                  this1\<lparr>mMapAlignmentBytes := alignmentBytes, mMapSize := mapSize\<rparr>,
                  tr @ [call]))
         else
           (let call = mmap nullptr mapSize (map_prot usage) (map_flags usage) (mMapFd this)
                         mapOffset;
                (p, errno) = mmap_ret os tr call
            in if p = MAP_FAILED then
                 (c2_map_errno [N_EINVAL] errno, nullptr, this\<lparr>mMapAddr := nullptr\<rparr>,
                  tr @ [call])
               else
                 (C2_OK, p + alignmentBytes,
                  this\<lparr>mMapAddr := p, mMapAlignmentBytes := alignmentBytes, mMapSize := mapSize\<rparr>,
                  tr @ [call])))"
  by (simp add: Impl_map_def map_prot_def map_flags_def Let_def split: prod.split)

lemma map_prot_rw:
  "map_prot \<lparr>mConsumer = kSoftwareRead, mProducer = kSoftwareWrite\<rparr> = PROT_READ OR PROT_WRITE"
  "map_flags \<lparr>mConsumer = kSoftwareRead, mProducer = kSoftwareWrite\<rparr> = MAP_SHARED"
  by (simp_all add: map_prot_def map_flags_def kSoftwareRead_def kSoftwareWrite_def
      GRALLOC_USAGE_SW_READ_MASK_def GRALLOC_USAGE_SW_WRITE_MASK_def)

lemma map_prot_read:
  "map_prot read_usage = PROT_READ" "map_flags read_usage = MAP_PRIVATE"
  by (simp_all add: map_prot_def map_flags_def read_usage_def kSoftwareRead_def
      GRALLOC_USAGE_SW_READ_MASK_def GRALLOC_USAGE_SW_WRITE_MASK_def)

text \<open>The mapped allocation \<open>demo_impl\<close> is what a first map of a fresh allocation leaves.\<close>

lemma demo_impl_reachable:
  "Impl_map demo_env [] (mImpl demo_alloc) 0 4096 read_usage None =
     (C2_OK, 0x10000, demo_impl, [ion_map 3 7 4096 PROT_READ MAP_PRIVATE 0])"
  by (simp add: Impl_map_prot map_prot_read demo_env_def demo_alloc_def demo_impl_def Let_def
      C2HandleIon_ctor_def ionFd_def buffer_def PAGE_SIZE_def)

lemma Impl_unmap_mismatch:
  "a \<noteq> mMapAddr this + mMapAlignmentBytes this \<or>
   sz + mMapAlignmentBytes this \<noteq> mMapSize this \<Longrightarrow>
     Impl_unmap os tr this a sz fenceFd = (C2_BAD_VALUE, fenceFd, this, tr)"
  by (simp add: Impl_unmap_def)

lemma Impl_unmap_match:
  assumes "a = mMapAddr this + mMapAlignmentBytes this"
    and "sz + mMapAlignmentBytes this = mMapSize this"
    and "munmap_ret os tr (munmap (mMapAddr this) (mMapSize this)) = (err, errno)"
  shows "Impl_unmap os tr this a sz fenceFd =
     (if err = 0 then C2_OK else c2_map_errno [N_EINVAL] errno,
      if err = 0 then map_option (\<lambda>_. - 1) fenceFd else fenceFd,
      this, tr @ [munmap (mMapAddr this) (mMapSize this)])"
  using assms by (simp add: Impl_unmap_def Let_def split: option.split)

text \<open>
  C4, as amended. \<^verbatim>\<open>unmap\<close> returns BadValue, and makes no call, whenever the pair of
  address and size does not match the recorded mapping (the address is the recorded
  address plus the padding, the size plus the padding is the recorded size). When the
  pair matches, it calls \<^verbatim>\<open>munmap\<close> once on the recorded address and size; it returns Ok
  (and resets a given fence to -1) when \<^verbatim>\<open>munmap\<close> returns 0, and otherwise the error
  number of \<^verbatim>\<open>munmap\<close> mapped through the table of EINVAL, which is BadValue for EINVAL.
  In every case the recorded mapping state is left as it was.
\<close>

theorem Impl_unmap_amended:
  "(a \<noteq> mMapAddr this + mMapAlignmentBytes this \<or>
    sz + mMapAlignmentBytes this \<noteq> mMapSize this \<longrightarrow>
      Impl_unmap os tr this a sz fenceFd = (C2_BAD_VALUE, fenceFd, this, tr)) \<and>
   (a = mMapAddr this + mMapAlignmentBytes this \<and>
    sz + mMapAlignmentBytes this = mMapSize this \<and>
    munmap_ret os tr (munmap (mMapAddr this) (mMapSize this)) = (err, errno) \<longrightarrow>
      Impl_unmap os tr this a sz fenceFd =
        (if err = 0 then C2_OK
         else if errno = EINVAL then C2_BAD_VALUE
         else if errno = 0 then C2_OK
         else C2_CORRUPTED,
         if err = 0 then map_option (\<lambda>_. - 1) fenceFd else fenceFd,
         this, tr @ [munmap (mMapAddr this) (mMapSize this)]))"
  using Impl_unmap_mismatch [of a this sz os tr fenceFd]
    Impl_unmap_match [of a this sz os tr err errno fenceFd]
  by (auto simp: c2_map_errno_def EINVAL_def)

theorem Impl_unmap_amended_witness:
  "Impl_unmap demo_env [] demo_impl 0x10008 4096 (Some 9) = (C2_BAD_VALUE, Some 9, demo_impl, []) \<and>
   Impl_unmap demo_env [] demo_impl 0x10000 4096 (Some 9) =
     (C2_OK, Some (- 1), demo_impl, [munmap 0x10000 4096])"
  using
    Impl_unmap_amended [where a = "0x10008" and this = demo_impl and sz = 4096
      and os = demo_env and tr = "[]" and fenceFd = "Some 9" and err = 0 and errno = 0]
    Impl_unmap_amended [where a = "0x10000" and this = demo_impl and sz = 4096
      and os = demo_env and tr = "[]" and fenceFd = "Some 9" and err = 0 and errno = 0]
  by (simp add: demo_impl_def demo_env_def)

text \<open>
  C4 as stated fails on the code. On the mapped allocation, the matching pair is
  unmapped with success and the object afterwards is the object before, with the
  descriptor, the address and the size of the mapping still recorded; and when
  \<^verbatim>\<open>munmap\<close> fails with EINVAL the matching pair is answered with BadValue.
\<close>

theorem Impl_unmap_counterexample:
  "Impl_unmap demo_env [] demo_impl 0x10000 4096 None =
     (C2_OK, None, demo_impl, [munmap 0x10000 4096]) \<and>
   mMapFd demo_impl = 5 \<and> mMapAddr demo_impl = 0x10000 \<and> mMapSize demo_impl = 4096 \<and>
   Impl_unmap failing_env [] demo_impl 0x10000 4096 None =
     (C2_BAD_VALUE, None, demo_impl, [munmap 0x10000 4096])"
  by (simp add: Impl_unmap_def demo_env_def failing_env_def demo_impl_def Let_def
      c2_map_errno_def EINVAL_def)

text \<open>
  C6, as amended. When a mapped descriptor is recorded, \<^verbatim>\<open>map\<close> does not ask the driver
  for a mapping again; it makes exactly one \<^verbatim>\<open>mmap\<close> call on the recorded descriptor, for
  the page-aligned range. If that call succeeds, the recorded address, padding and size
  are overwritten by those of the new mapping and the new address plus the padding is
  returned with Ok. If it fails, the recorded address is set to null and the error number
  is returned mapped through the table of EINVAL. The recorded descriptor is unchanged.
\<close>

theorem Impl_map_amended:
  assumes "mMapFd this \<noteq> - 1"
    and "mmap_ret os tr (mmap nullptr (sz + offset mod PAGE_SIZE) (map_prot usage)
           (map_flags usage) (mMapFd this) (offset - offset mod PAGE_SIZE)) = (p, errno)"
  shows "Impl_map os tr this offset sz usage fenceFd =
     (if p = MAP_FAILED then
        (c2_map_errno [N_EINVAL] errno, nullptr, this\<lparr>mMapAddr := nullptr\<rparr>,
         tr @ [mmap nullptr (sz + offset mod PAGE_SIZE) (map_prot usage) (map_flags usage)
                 (mMapFd this) (offset - offset mod PAGE_SIZE)])
      else
        (C2_OK, p + offset mod PAGE_SIZE,
         this\<lparr>mMapAddr := p, mMapAlignmentBytes := offset mod PAGE_SIZE,
              mMapSize := sz + offset mod PAGE_SIZE\<rparr>,
         tr @ [mmap nullptr (sz + offset mod PAGE_SIZE) (map_prot usage) (map_flags usage)
                 (mMapFd this) (offset - offset mod PAGE_SIZE)]))"
  using assms by (simp add: Impl_map_prot Let_def)

theorem Impl_map_amended_witness:
  "mMapFd demo_impl \<noteq> - 1 \<and>
   Impl_map failing_env [] demo_impl 4100 100 read_usage None =
     (C2_BAD_VALUE, nullptr, demo_impl\<lparr>mMapAddr := nullptr\<rparr>,
      [mmap nullptr 104 PROT_READ MAP_PRIVATE 5 4096])"
proof -
  have fd: "mMapFd demo_impl \<noteq> - 1" by (simp add: demo_impl_def)
  have ret: "mmap_ret failing_env [] (mmap nullptr (100 + 4100 mod PAGE_SIZE) (map_prot read_usage)
           (map_flags read_usage) (mMapFd demo_impl) (4100 - 4100 mod PAGE_SIZE)) =
           (MAP_FAILED, EINVAL)"
    by (simp add: failing_env_def)
  have page: "(4100 :: size_t) mod PAGE_SIZE = 4" by (simp add: PAGE_SIZE_def)
  have fdv: "mMapFd demo_impl = 5" by (simp add: demo_impl_def)
  show ?thesis
    using fd Impl_map_amended [OF fd ret, of None]
    by (simp add: page fdv map_prot_read c2_map_errno_def)
qed

text \<open>
  C6 as stated fails on the code. With the descriptor 5 recorded, a second \<^verbatim>\<open>map\<close> calls
  \<^verbatim>\<open>mmap\<close> on that descriptor and replaces the recorded address and size.
\<close>

theorem Impl_map_counterexample:
  "mMapFd demo_impl = 5 \<and> mMapAddr demo_impl = 0x10000 \<and> mMapSize demo_impl = 4096 \<and>
   Impl_map demo_env [] demo_impl 4096 8192 read_usage None =
     (C2_OK, 0x20000, demo_impl\<lparr>mMapAddr := 0x20000, mMapSize := 8192\<rparr>,
      [mmap nullptr 8192 PROT_READ MAP_PRIVATE 5 4096]) \<and>
   demo_impl\<lparr>mMapAddr := 0x20000, mMapSize := 8192\<rparr> \<noteq> demo_impl"
proof -
  have changed: "mMapSize (demo_impl\<lparr>mMapAddr := 0x20000, mMapSize := 8192\<rparr>) \<noteq> mMapSize demo_impl"
    by (simp add: demo_impl_def)
  then have neq: "demo_impl\<lparr>mMapAddr := 0x20000, mMapSize := 8192\<rparr> \<noteq> demo_impl"
    by metis
  have run: "Impl_map demo_env [] demo_impl 4096 8192 read_usage None =
     (C2_OK, 0x20000, demo_impl\<lparr>mMapAddr := 0x20000, mMapSize := 8192\<rparr>,
      [mmap nullptr 8192 PROT_READ MAP_PRIVATE 5 4096])"
    by (simp add: Impl_map_prot map_prot_read demo_env_def demo_impl_def Let_def PAGE_SIZE_def
        MAP_FAILED_def)
  show ?thesis using neq run by (simp add: demo_impl_def)
qed

subsection \<open>Ranges\<close>

lemma ucast_up_down: "(ucast (ucast (c :: uint32_t) :: size_t) :: uint32_t) = c"
  by (rule ucast_up_ucast_id) (simp add: is_up)

lemma unat_ucast_up: "unat (ucast (c :: uint32_t) :: size_t) = unat c"
proof -
  have "unat c < 2 ^ 32" using unsigned_less [of c] by simp
  then have "unat c < 2 ^ 64" by simp
  then show ?thesis by (simp add: unsigned_ucast_eq take_bit_nat_eq_self)
qed

lemma clamp_fits:
  fixes x :: size_t and c :: uint32_t
  assumes "x \<le> ucast c"
  shows "unat (ucast x :: uint32_t) = unat x"
proof -
  have "unat x \<le> unat (ucast c :: size_t)" using assms by (simp add: word_le_nat_alt)
  also have "unat (ucast c :: size_t) = unat c" by (rule unat_ucast_up)
  also have "unat c < 2 ^ 32" using unsigned_less [of c] by simp
  finally have "unat x < 2 ^ 32" .
  then show ?thesis by (simp add: unsigned_ucast_eq take_bit_nat_eq_self)
qed

text \<open>Every range built by a constructor lies inside its capacity.\<close>

lemma LinearRange_clamped_ok: "range_ok (LinearRange_clamped cap offset sz)"
proof -
  let ?C = "ucast cap :: size_t"
  let ?off = "min offset ?C"
  let ?len = "min sz (?C - ?off)"
  have C: "unat ?C = unat cap" by (rule unat_ucast_up)
  have off_le: "?off \<le> ?C" by simp
  then have off: "unat (ucast ?off :: uint32_t) = unat ?off" by (rule clamp_fits)
  have off_le': "unat ?off \<le> unat cap" using off_le C by (simp add: word_le_nat_alt)
  have sub: "unat (?C - ?off) = unat cap - unat ?off"
    using off_le C by (simp add: unat_sub)
  have len_sub: "?len \<le> ?C - ?off" by simp
  moreover have "?C - ?off \<le> ?C" using off_le by (simp add: word_sub_le)
  ultimately have len_le: "?len \<le> ?C" by (rule order_trans)
  then have len: "unat (ucast ?len :: uint32_t) = unat ?len" by (rule clamp_fits)
  have len_le': "unat ?len \<le> unat cap - unat ?off"
    using len_sub sub by (simp add: word_le_nat_alt)
  have 1: "(ucast ?off :: uint32_t) \<le> cap"
    using off off_le' by (simp add: word_le_nat_alt)
  have 2: "(ucast ?len :: uint32_t) \<le> cap - ucast ?off"
    using 1 len len_le' off by (simp add: word_le_nat_alt unat_sub)
  show ?thesis using 1 2 by (simp add: range_ok_def LinearRange_clamped_def Let_def)
qed

lemma LinearRange_full_ok: "range_ok (LinearRange_full cap)"
  by (simp add: range_ok_def LinearRange_full_def)


lemma C2ConstLinearBlock_ctor_ok:
  "range_ok (C2ConstLinearBlock_ctor H p)" "range_ok (C2ConstLinearBlock_ctor_range H p offset sz)"
  using LinearRange_full_ok [of "alloc_capacity (H p)"]
    LinearRange_clamped_ok [of "alloc_capacity (H p)" offset sz]
  by (simp_all add: range_ok_def C2ConstLinearBlock_ctor_def C2ConstLinearBlock_ctor_range_def
      Let_def)

lemma clamp_policy:
  "ucast cap < offset \<Longrightarrow>
     r_offset (LinearRange_clamped cap offset sz) = cap \<and>
     r_size (LinearRange_clamped cap offset sz) = 0"
  by (simp add: LinearRange_clamped_def Let_def min_absorb2 less_imp_le ucast_up_down)


subsection \<open>Mapping a block\<close>

lemma C2LinearBlock_Impl_map_mapped:
  "mBase this \<noteq> nullptr \<Longrightarrow> C2LinearBlock_Impl_map os tr H this capacity = (this, H, tr)"
  by (simp add: C2LinearBlock_Impl_map_def)

lemma C2ConstLinearBlock_Impl_map_mapped:
  "mBase this \<noteq> nullptr \<Longrightarrow>
     C2ConstLinearBlock_Impl_map os tr H this offset sz = (this, H, tr)"
  by (simp add: C2ConstLinearBlock_Impl_map_def)

lemma C2LinearBlock_map_mapped:
  assumes "C2LinearBlock_map os tr H b = (acq, b1, H1, tr1)"
    and "mBase (linear_mImpl b1) \<noteq> nullptr"
  shows "C2LinearBlock_map os' tr1 H1 b1 = (acq, b1, H1, tr1) \<and>
         C2WriteView_base (acq_view acq) = mBase (linear_mImpl b1)"
  using assms
  by (auto simp: C2LinearBlock_map_def Let_def C2LinearBlock_Impl_map_mapped C2WriteView_base_def
      C2WriteView_ctor_def C2Acquirable_ctor_def setOffset_be_def setSize_be_def
      LinearRange.extend_def C2WriteView.fields_def LinearRange_full_def
      split: prod.splits if_splits)

lemma C2ConstLinearBlock_map_mapped:
  assumes "C2ConstLinearBlock_map os tr H c = (acq, c1, H1, tr1)"
    and "mBase (const_mImpl c1) \<noteq> nullptr"
  shows "C2ConstLinearBlock_map os' tr1 H1 c1 = (acq, c1, H1, tr1) \<and>
         C2ReadView_data (acq_view acq) = mBase (const_mImpl c1)"
  using assms
  by (auto simp: C2ConstLinearBlock_map_def Let_def C2ConstLinearBlock_Impl_map_mapped
      C2ReadView_data_def C2ReadView_ctor_def C2Acquirable_ctor_def
      split: prod.splits if_splits)

text \<open>The first map of the two demonstration blocks, in the environment that succeeds.\<close>

lemma demo_block_fields:
  "r_capacity demo_block = 4096" "r_offset demo_block = 16" "r_size demo_block = 100"
  "linear_mImpl demo_block = C2LinearBlock_Impl_ctor 0"
  "r_capacity demo_parent = 4096" "r_offset demo_parent = 16" "r_size demo_parent = 100"
  "const_mImpl demo_parent = C2ConstLinearBlock_Impl_ctor 0" "mFence demo_parent = C2Fence"
  by (simp_all add: demo_block_def demo_parent_def C2LinearBlock_ctor_range_def
      C2ConstLinearBlock_ctor_range_def demo_heap_def demo_alloc_def LinearRange_clamped_def
      Let_def)

lemma demo_block_mapped:
  "C2LinearBlock_map demo_env [] demo_heap demo_block =
     (C2Acquirable_ctor C2_OK C2Fence
        (setSize_be (setOffset_be (C2WriteView_ctor demo_block 0x10000) 16) 100),
      demo_block\<lparr>linear_mImpl :=
        (C2LinearBlock_Impl_ctor 0)\<lparr>mError := C2_OK, mBase := 0x10000, mSize := 4096\<rparr>\<rparr>,
      demo_heap(0 := demo_alloc\<lparr>mImpl := demo_impl\<rparr>),
      [ion_map 3 7 4096 (PROT_READ OR PROT_WRITE) MAP_SHARED 0])"
  by (simp add: C2LinearBlock_map_def C2LinearBlock_Impl_map_def C2AllocationIon_map_def
      Impl_map_prot map_prot_rw demo_block_fields C2LinearBlock_Impl_ctor_def Let_def
      demo_heap_def demo_alloc_def demo_impl_def demo_env_def nullptr_def PAGE_SIZE_def
      C2HandleIon_ctor_def ionFd_def buffer_def C2WriteView_ctor_def)

lemma demo_parent_mapped:
  "C2ConstLinearBlock_map demo_env [] demo_heap demo_parent =
     (C2Acquirable_ctor C2_OK C2Fence (C2ReadView_ctor 100 0x10010),
      demo_parent\<lparr>const_mImpl :=
        (C2ConstLinearBlock_Impl_ctor 0)\<lparr>mError := C2_OK, mBase := 0x10010, mSize := 100\<rparr>\<rparr>,
      demo_heap(0 := demo_alloc\<lparr>mImpl :=
        demo_impl\<lparr>mMapAlignmentBytes := 16, mMapSize := 116\<rparr>\<rparr>),
      [ion_map 3 7 116 PROT_READ MAP_PRIVATE 0])"
  by (simp add: C2ConstLinearBlock_map_def C2ConstLinearBlock_Impl_map_def C2AllocationIon_map_def
      Impl_map_prot map_prot_read [unfolded read_usage_def] demo_block_fields
      C2ConstLinearBlock_Impl_ctor_def Let_def
      demo_heap_def demo_alloc_def demo_impl_def demo_env_def nullptr_def PAGE_SIZE_def
      C2HandleIon_ctor_def ionFd_def buffer_def)

text \<open>
  C5. Once the \<^verbatim>\<open>Impl\<close> of a block, mutable or const, has recorded a non-null base,
  \<^verbatim>\<open>map\<close> on the \<^verbatim>\<open>Impl\<close> changes nothing: the recorded base, size and error, the
  allocation and the trace stay as they are. Hence, when a call of \<^verbatim>\<open>map()\<close> on a block
  has recorded a non-null base, a second call, in any environment, returns the same
  acquirable with the same base address, leaves the block and the allocation unchanged
  and makes no call to the driver or the operating system.
\<close>

theorem map_twice_same_base:
  "(mBase this \<noteq> nullptr \<longrightarrow>
      C2LinearBlock_Impl_map os tr H this capacity = (this, H, tr)) \<and>
   (mBase cthis \<noteq> nullptr \<longrightarrow>
      C2ConstLinearBlock_Impl_map os tr H cthis offset sz = (cthis, H, tr)) \<and>
   (C2LinearBlock_map os tr H b = (acq, b1, H1, tr1) \<and> mBase (linear_mImpl b1) \<noteq> nullptr \<longrightarrow>
      C2LinearBlock_map os' tr1 H1 b1 = (acq, b1, H1, tr1) \<and>
      C2WriteView_base (acq_view acq) = mBase (linear_mImpl b1)) \<and>
   (C2ConstLinearBlock_map os tr H c = (cacq, c1, H2, tr2) \<and>
    mBase (const_mImpl c1) \<noteq> nullptr \<longrightarrow>
      C2ConstLinearBlock_map os' tr2 H2 c1 = (cacq, c1, H2, tr2) \<and>
      C2ReadView_data (acq_view cacq) = mBase (const_mImpl c1))"
  using C2LinearBlock_Impl_map_mapped [of this os tr H capacity]
    C2ConstLinearBlock_Impl_map_mapped [of cthis os tr H offset sz]
    C2LinearBlock_map_mapped [of os tr H b acq b1 H1 tr1 os']
    C2ConstLinearBlock_map_mapped [of os tr H c cacq c1 H2 tr2 os']
  by blast

theorem map_twice_same_base_witness:
  "mBase (linear_mImpl (fst (snd (C2LinearBlock_map demo_env [] demo_heap demo_block)))) = 0x10000 \<and>
   C2LinearBlock_map failing_env
     (snd (snd (snd (C2LinearBlock_map demo_env [] demo_heap demo_block))))
     (fst (snd (snd (C2LinearBlock_map demo_env [] demo_heap demo_block))))
     (fst (snd (C2LinearBlock_map demo_env [] demo_heap demo_block))) =
     C2LinearBlock_map demo_env [] demo_heap demo_block \<and>
   mBase (const_mImpl (fst (snd (C2ConstLinearBlock_map demo_env [] demo_heap demo_parent)))) =
     0x10010 \<and>
   C2ConstLinearBlock_map failing_env
     (snd (snd (snd (C2ConstLinearBlock_map demo_env [] demo_heap demo_parent))))
     (fst (snd (snd (C2ConstLinearBlock_map demo_env [] demo_heap demo_parent))))
     (fst (snd (C2ConstLinearBlock_map demo_env [] demo_heap demo_parent))) =
     C2ConstLinearBlock_map demo_env [] demo_heap demo_parent"
  using map_twice_same_base [where os = demo_env and tr = "[]" and H = demo_heap
      and b = demo_block and c = demo_parent and os' = failing_env
      and acq = "fst (C2LinearBlock_map demo_env [] demo_heap demo_block)"
      and ?b1.0 = "fst (snd (C2LinearBlock_map demo_env [] demo_heap demo_block))"
      and ?H1.0 = "fst (snd (snd (C2LinearBlock_map demo_env [] demo_heap demo_block)))"
      and ?tr1.0 = "snd (snd (snd (C2LinearBlock_map demo_env [] demo_heap demo_block)))"
      and cacq = "fst (C2ConstLinearBlock_map demo_env [] demo_heap demo_parent)"
      and ?c1.0 = "fst (snd (C2ConstLinearBlock_map demo_env [] demo_heap demo_parent))"
      and ?H2.0 = "fst (snd (snd (C2ConstLinearBlock_map demo_env [] demo_heap demo_parent)))"
      and ?tr2.0 = "snd (snd (snd (C2ConstLinearBlock_map demo_env [] demo_heap demo_parent)))"]
  by (simp add: demo_block_mapped demo_parent_mapped nullptr_def)






text \<open>
  A recorded base comes with the error Ok: this holds for the \<^verbatim>\<open>Impl\<close> of a new block and
  is kept by \<^verbatim>\<open>map\<close>.
\<close>

lemma C2ConstLinearBlock_Impl_ctor_inv:
  "mBase (C2ConstLinearBlock_Impl_ctor p) = nullptr"
  by (simp add: C2ConstLinearBlock_Impl_ctor_def)

lemma C2ConstLinearBlock_Impl_map_inv:
  assumes "mBase this \<noteq> nullptr \<longrightarrow> mError this = C2_OK"
    and "C2ConstLinearBlock_Impl_map os tr H this offset sz = (this1, H1, tr1)"
  shows "mBase this1 \<noteq> nullptr \<longrightarrow> mError this1 = C2_OK"
  using assms
  by (auto simp: C2ConstLinearBlock_Impl_map_def Let_def split: if_splits prod.splits)

text \<open>
  C9. \<^verbatim>\<open>C2ConstLinearBlock::map\<close> always returns an acquirable; it has no other way to
  report. On a block that is not mapped yet it maps the window of the block for reading.
  When that mapping fails, the acquirable carries the mapping error and its read view
  has a null data pointer and the same error. When the mapping succeeds with a non-null
  address, the acquirable has error Ok and its read view has the mapped address as data,
  the size of the block as capacity and error Ok. On a block that is mapped already,
  the acquirable has error Ok and its read view has the recorded base as data and the
  size of the block as capacity, and nothing is mapped.
\<close>

theorem C2ConstLinearBlock_map_outcome:
  "(mBase (const_mImpl c) = nullptr \<and>
    C2AllocationIon_map os tr (H (mAllocation (const_mImpl c))) (ucast (r_offset c))
      (ucast (r_size c)) \<lparr>mConsumer = kSoftwareRead, mProducer = 0\<rparr> None =
      (err, base, alloc1, tr1) \<longrightarrow>
    (\<exists>acq c1. C2ConstLinearBlock_map os tr H c =
        (acq, c1, H(mAllocation (const_mImpl c) := alloc1), tr1) \<and>
      (err \<noteq> C2_OK \<longrightarrow>
         acq_error acq = err \<and> C2ReadView_data (acq_view acq) = nullptr \<and>
         C2ReadView_error (acq_view acq) = err) \<and>
      (err = C2_OK \<and> base \<noteq> nullptr \<longrightarrow>
         acq_error acq = C2_OK \<and> C2ReadView_data (acq_view acq) = base \<and>
         rv_capacity (acq_view acq) = r_size c \<and>
         C2ReadView_error (acq_view acq) = C2_OK))) \<and>
   (mBase (const_mImpl c) \<noteq> nullptr \<and> mError (const_mImpl c) = C2_OK \<longrightarrow>
    (\<exists>acq. C2ConstLinearBlock_map os tr H c = (acq, c, H, tr) \<and>
      acq_error acq = C2_OK \<and> C2ReadView_data (acq_view acq) = mBase (const_mImpl c) \<and>
      rv_capacity (acq_view acq) = r_size c \<and>
      C2ReadView_error (acq_view acq) = C2_OK))"
proof -
  have fresh: "\<exists>acq c1. C2ConstLinearBlock_map os tr H c =
        (acq, c1, H(mAllocation (const_mImpl c) := alloc1), tr1) \<and>
      (err \<noteq> C2_OK \<longrightarrow>
         acq_error acq = err \<and> C2ReadView_data (acq_view acq) = nullptr \<and>
         C2ReadView_error (acq_view acq) = err) \<and>
      (err = C2_OK \<and> base \<noteq> nullptr \<longrightarrow>
         acq_error acq = C2_OK \<and> C2ReadView_data (acq_view acq) = base \<and>
         rv_capacity (acq_view acq) = r_size c \<and>
         C2ReadView_error (acq_view acq) = C2_OK)"
    if "mBase (const_mImpl c) = nullptr"
      and "C2AllocationIon_map os tr (H (mAllocation (const_mImpl c))) (ucast (r_offset c))
        (ucast (r_size c)) \<lparr>mConsumer = kSoftwareRead, mProducer = 0\<rparr> None =
        (err, base, alloc1, tr1)"
    using that
    by (auto simp: C2ConstLinearBlock_map_def C2ConstLinearBlock_Impl_map_def Let_def
        C2Acquirable_ctor_def C2ReadView_ctor_def C2ReadView_ctor_error_def C2ReadView_data_def
        C2ReadView_error_def)
  have mapped: "\<exists>acq. C2ConstLinearBlock_map os tr H c = (acq, c, H, tr) \<and>
      acq_error acq = C2_OK \<and> C2ReadView_data (acq_view acq) = mBase (const_mImpl c) \<and>
      rv_capacity (acq_view acq) = r_size c \<and>
      C2ReadView_error (acq_view acq) = C2_OK"
    if "mBase (const_mImpl c) \<noteq> nullptr" and "mError (const_mImpl c) = C2_OK"
    using that
    by (simp add: C2ConstLinearBlock_map_def C2ConstLinearBlock_Impl_map_mapped Let_def
        C2Acquirable_ctor_def C2ReadView_ctor_def C2ReadView_data_def C2ReadView_error_def)
  show ?thesis using fresh mapped by blast
qed

lemma demo_parent_alloc_map:
  "C2AllocationIon_map demo_env [] (demo_heap (mAllocation (const_mImpl demo_parent)))
     (ucast (r_offset demo_parent)) (ucast (r_size demo_parent))
     \<lparr>mConsumer = kSoftwareRead, mProducer = 0\<rparr> None =
   (C2_OK, 0x10010, demo_alloc\<lparr>mImpl := demo_impl\<lparr>mMapAlignmentBytes := 16, mMapSize := 116\<rparr>\<rparr>,
    [ion_map 3 7 116 PROT_READ MAP_PRIVATE 0])"
  by (simp add: C2AllocationIon_map_def Impl_map_prot map_prot_read [unfolded read_usage_def]
      demo_block_fields Let_def demo_heap_def demo_alloc_def demo_impl_def demo_env_def
      PAGE_SIZE_def C2HandleIon_ctor_def ionFd_def buffer_def)

lemma demo_parent_alloc_map_fails:
  "C2AllocationIon_map failing_env [] (demo_heap (mAllocation (const_mImpl demo_parent)))
     (ucast (r_offset demo_parent)) (ucast (r_size demo_parent))
     \<lparr>mConsumer = kSoftwareRead, mProducer = 0\<rparr> None =
   (C2_BAD_VALUE, nullptr, demo_alloc, [ion_map 3 7 116 PROT_READ MAP_PRIVATE 0])"
  by (simp add: C2AllocationIon_map_def Impl_map_prot map_prot_read [unfolded read_usage_def]
      demo_block_fields Let_def demo_heap_def demo_alloc_def failing_env_def
      PAGE_SIZE_def C2HandleIon_ctor_def ionFd_def buffer_def c2_map_errno_def EINVAL_def)

theorem C2ConstLinearBlock_map_outcome_witness:
  "acq_error (fst (C2ConstLinearBlock_map failing_env [] demo_heap demo_parent)) = C2_BAD_VALUE \<and>
   C2ReadView_data (acq_view (fst (C2ConstLinearBlock_map failing_env [] demo_heap demo_parent))) =
     nullptr \<and>
   C2ReadView_error (acq_view (fst (C2ConstLinearBlock_map failing_env [] demo_heap demo_parent))) =
     C2_BAD_VALUE \<and>
   acq_error (fst (C2ConstLinearBlock_map demo_env [] demo_heap demo_parent)) = C2_OK \<and>
   C2ReadView_data (acq_view (fst (C2ConstLinearBlock_map demo_env [] demo_heap demo_parent))) =
     0x10010 \<and>
   rv_capacity (acq_view (fst (C2ConstLinearBlock_map demo_env [] demo_heap demo_parent))) = 100 \<and>
   acq_error (fst (C2ConstLinearBlock_map failing_env [] demo_heap
     (fst (snd (C2ConstLinearBlock_map demo_env [] demo_heap demo_parent))))) = C2_OK \<and>
   C2ReadView_data (acq_view (fst (C2ConstLinearBlock_map failing_env [] demo_heap
     (fst (snd (C2ConstLinearBlock_map demo_env [] demo_heap demo_parent)))))) = 0x10010"
proof -
  let ?mapped = "fst (snd (C2ConstLinearBlock_map demo_env [] demo_heap demo_parent))"
  have fresh: "mBase (const_mImpl demo_parent) = nullptr"
    by (simp add: demo_block_fields C2ConstLinearBlock_Impl_ctor_def)
  have size: "r_size demo_parent = 100" by (simp add: demo_block_fields)
  have addr: "(0x10010 :: addr) \<noteq> nullptr" by (simp add: nullptr_def)
  have mapped: "mBase (const_mImpl ?mapped) = 0x10010" "mError (const_mImpl ?mapped) = C2_OK"
    by (simp_all add: demo_parent_mapped)
  show ?thesis
    using
      C2ConstLinearBlock_map_outcome [where c = demo_parent and H = demo_heap
        and os = failing_env and tr = "[]" and err = C2_BAD_VALUE and base = nullptr
        and ?alloc1.0 = demo_alloc and ?tr1.0 = "[ion_map 3 7 116 PROT_READ MAP_PRIVATE 0]"]
      C2ConstLinearBlock_map_outcome [where c = demo_parent and H = demo_heap
        and os = demo_env and tr = "[]" and err = C2_OK and base = "0x10010"
        and ?alloc1.0 = "demo_alloc\<lparr>mImpl := demo_impl\<lparr>mMapAlignmentBytes := 16, mMapSize := 116\<rparr>\<rparr>"
        and ?tr1.0 = "[ion_map 3 7 116 PROT_READ MAP_PRIVATE 0]"]
      C2ConstLinearBlock_map_outcome [where c = ?mapped and H = demo_heap
        and os = failing_env and tr = "[]"]
      fresh demo_parent_alloc_map_fails demo_parent_alloc_map size addr mapped
    by auto
qed

subsection \<open>Sub-blocks\<close>

text \<open>
  \<^verbatim>\<open>subBlock\<close> hands the offset and the size it is given to the block constructor
  together with the allocation: the range of the block it is called on is not used.
  \<^verbatim>\<open>C2ReadView::subView\<close>, in contrast, is relative to the view it is called on.
\<close>

lemma subBlock_range:
  "C2ConstLinearBlock_subBlock H c offset sz =
     C2ConstLinearBlock_ctor_range H (mAllocation (const_mImpl c)) offset sz"
  by (simp add: C2ConstLinearBlock_subBlock_def C2ConstLinearBlock_Impl_subBlock_def)

lemma subBlock_same_allocation:
  "block_mAllocation (C2ConstLinearBlock_subBlock H c offset sz) = mAllocation (const_mImpl c)"
  by (simp add: subBlock_range C2ConstLinearBlock_ctor_range_def Let_def)

lemma subBlock_ok: "range_ok (C2ConstLinearBlock_subBlock H c offset sz)"
  unfolding subBlock_range by (rule C2ConstLinearBlock_ctor_ok)

lemma subView_relative:
  "offset \<le> ucast (rv_capacity v) \<Longrightarrow>
     C2ReadView_data (subView v offset sz) = C2ReadView_data v + offset"
  by (simp add: subView_def Let_def C2ReadView_ctor_def C2ReadView_data_def leD)

text \<open>
  C8. On the block of offset 16 and size 100 over an allocation of 4096 bytes,
  \<^verbatim>\<open>subBlock(5, 5)\<close> gives a block over the same allocation with offset 5 and size 5:
  the offset of the parent is not added, and the child lies outside the parent.
\<close>

theorem subBlock_ignores_parent_offset:
  "r_offset demo_parent = 16 \<and> r_size demo_parent = 100 \<and>
   r_offset (C2ConstLinearBlock_subBlock demo_heap demo_parent 5 5) = 5 \<and>
   r_size (C2ConstLinearBlock_subBlock demo_heap demo_parent 5 5) = 5 \<and>
   block_mAllocation (C2ConstLinearBlock_subBlock demo_heap demo_parent 5 5) =
     block_mAllocation demo_parent"
  by (simp add: demo_parent_def C2ConstLinearBlock_subBlock_def
      C2ConstLinearBlock_Impl_subBlock_def C2ConstLinearBlock_ctor_range_def
      C2ConstLinearBlock_Impl_ctor_def demo_heap_def demo_alloc_def LinearRange_clamped_def
      Let_def)

subsection \<open>Further properties of the allocator, the allocation and the views\<close>

text \<open>
  On a working allocator \<^verbatim>\<open>allocateLinearBuffer\<close>, after the release of what the output
  pointer held, makes one \<^verbatim>\<open>ion_alloc\<close> call, for the capacity with alignment 0, every
  heap and no flags. When the driver returns 0 the allocation is stored with the buffer
  the driver gave; otherwise the negated return value is mapped through the table of
  ENOMEM, EACCES and EINVAL, nothing is stored and the destructor of the discarded
  allocation frees the buffer -1.
\<close>

lemma allocateLinearBuffer_working:
  assumes "allocator_mInit A = C2_OK"
    and "ion_alloc_ret os (shared_ptr_reset tr a0)
           (ion_alloc (mIonFd A) (ucast capacity) 0 (- 1) 0) = (ret, buf)"
  shows "allocateLinearBuffer os tr u A capacity usage a0 =
     (if ret = 0 then
        (C2_OK,
         Some \<lparr>alloc_capacity = capacity,
               mImpl = \<lparr>mInit = C2_OK, mHandle = C2HandleIon_ctor (mIonFd A) buf, mMapFd = - 1,
                        mMapAddr = i_mMapAddr u, mMapAlignmentBytes = i_mMapAlignmentBytes u,
                        mMapSize = i_mMapSize u, mCapacity = ucast capacity\<rparr>\<rparr>,
         shared_ptr_reset tr a0 @ [ion_alloc (mIonFd A) (ucast capacity) 0 (- 1) 0])
      else
        (c2_map_errno [N_ENOMEM, N_EACCES, N_EINVAL] (- ret), None,
         shared_ptr_reset tr a0 @
           [ion_alloc (mIonFd A) (ucast capacity) 0 (- 1) 0, ion_free (mIonFd A) (- 1)]))"
  using assms c2_map_errno_nonzero [of "- ret" "[N_ENOMEM, N_EACCES, N_EINVAL]"]
  by (simp add: allocateLinearBuffer_def C2AllocationIon_ctor_alloc_def Impl_ctor_alloc_def
      Let_def C2AllocationIon_status_def Impl_status_def C2HandleIon_ctor_def ionFd_def
      buffer_def setBuffer_def C2AllocationIon_dtor_def Impl_dtor_def ucast_up_down)

lemma allocateLinearBuffer_working_witness:
  "allocator_mInit (fst (C2AllocatorIon_ctor demo_env [])) = C2_OK \<and>
   allocateLinearBuffer failing_env [ion_open] demo_indeterminate
     (fst (C2AllocatorIon_ctor demo_env [])) 4096 no_usage None =
   (C2_NO_MEMORY, None, [ion_open, ion_alloc 3 4096 0 (- 1) 0, ion_free 3 (- 1)])"
proof -
  have working: "allocator_mInit (fst (C2AllocatorIon_ctor demo_env [])) = C2_OK"
    by (simp add: C2AllocatorIon_ctor_def demo_env_def)
  have fd: "mIonFd (fst (C2AllocatorIon_ctor demo_env [])) = 3"
    by (simp add: C2AllocatorIon_ctor_def demo_env_def)
  have ret: "ion_alloc_ret failing_env (shared_ptr_reset [ion_open] None)
      (ion_alloc (mIonFd (fst (C2AllocatorIon_ctor demo_env []))) (ucast (4096 :: uint32_t)) 0 (- 1) 0) =
      (- ENOMEM, - 1)"
    by (simp add: failing_env_def)
  show ?thesis
    using working allocateLinearBuffer_working [OF working ret, of demo_indeterminate no_usage]
    by (simp add: fd c2_map_errno_def ENOMEM_def shared_ptr_reset_None)
qed

text \<open>
  The first map of an allocation (no mapped descriptor recorded) makes one \<^verbatim>\<open>ion_map\<close>
  call for the page-aligned range. When the driver returns a nonzero value, the error
  is not Ok, the address returned is null and no descriptor is recorded.
\<close>

lemma Impl_map_first_fails:
  assumes "mMapFd this = - 1"
    and "ion_map_ret os tr (ion_map (ionFd (mHandle this)) (buffer (mHandle this))
           (sz + offset mod PAGE_SIZE) (map_prot usage) (map_flags usage)
           (offset - offset mod PAGE_SIZE)) = (ret, ptr, map_fd)"
    and "ret \<noteq> 0"
  shows "\<exists>this1. Impl_map os tr this offset sz usage fenceFd =
           (c2_map_errno [N_EINVAL] (- ret), nullptr, this1,
            tr @ [ion_map (ionFd (mHandle this)) (buffer (mHandle this))
              (sz + offset mod PAGE_SIZE) (map_prot usage) (map_flags usage)
              (offset - offset mod PAGE_SIZE)]) \<and>
         mMapFd this1 = - 1 \<and> c2_map_errno [N_EINVAL] (- ret) \<noteq> C2_OK"
  using assms c2_map_errno_nonzero [of "- ret" "[N_EINVAL]"]
  by (simp add: Impl_map_prot Let_def)

lemma Impl_map_first_fails_witness:
  "mMapFd (mImpl demo_alloc) = - 1 \<and>
   fst (Impl_map failing_env [] (mImpl demo_alloc) 16 100 read_usage None) = C2_BAD_VALUE \<and>
   fst (snd (Impl_map failing_env [] (mImpl demo_alloc) 16 100 read_usage None)) = nullptr"
proof -
  have fresh: "mMapFd (mImpl demo_alloc) = - 1" by (simp add: demo_alloc_def)
  have ret: "ion_map_ret failing_env [] (ion_map (ionFd (mHandle (mImpl demo_alloc)))
           (buffer (mHandle (mImpl demo_alloc)))
           (100 + 16 mod PAGE_SIZE) (map_prot read_usage) (map_flags read_usage)
           (16 - 16 mod PAGE_SIZE)) = (- EINVAL, None, None)"
    by (simp add: failing_env_def)
  have nonzero: "- EINVAL \<noteq> 0" by (simp add: EINVAL_def)
  show ?thesis
    using fresh Impl_map_first_fails [OF fresh ret nonzero, of None]
    by (auto simp: c2_map_errno_def)
qed

text \<open>
  \<^verbatim>\<open>subView\<close> clamps the offset to the capacity of the view and the size to what is
  left; the view returned points at the data of this view plus the clamped offset, has
  the clamped size as capacity and carries no error.
\<close>

lemma clamp_min: "(if c < x then c else x) = min x (c :: 'a :: linorder)"
  by (auto simp: min_def)

lemma subView_clamped:
  "C2ReadView_data (subView v offset sz) =
     C2ReadView_data v + min offset (ucast (rv_capacity v)) \<and>
   rv_capacity (subView v offset sz) =
     ucast (min sz (ucast (rv_capacity v) - min offset (ucast (rv_capacity v)))) \<and>
   C2ReadView_error (subView v offset sz) = C2_OK"
  unfolding subView_def Let_def clamp_min
  by (simp add: C2ReadView_ctor_def C2ReadView_data_def C2ReadView_error_def)

end
